theory Spec2Isabelle
  imports Complex_Main "HOL-Library.AList"
begin

section \<open>The backend server of ecs-deployment-three-tier (src/backend/server.js)\<close>

text \<open>
  The server talks to three outside services: the SSM parameter store, the MySQL driver
  (bootstrap connections and the pool) and the clock and environment of the process. They
  are parameters of the model: a record of functions over an abstract state \<open>'w\<close> of the
  outside, each returning either the error it throws (\<open>Inl\<close>) or its value (\<open>Inr\<close>).
  What the program itself does is recorded as a trace of events, in the order of the calls.
\<close>

subsection \<open>Values\<close>

datatype error = Error string | TypeError string

fun message :: "error \<Rightarrow> string" where
  "message (Error m) = m"
| "message (TypeError m) = m"

datatype json =
    JUndefined
  | JNull
  | JBool bool
  | JNum real
  | JStr string
  | JArr "json list"
  | JObj "(string \<times> json) list"

text \<open>
  \<open>res.json(v)\<close> sends \<open>JSON.stringify(v)\<close>: a property whose value is \<open>undefined\<close> is
  left out of an object, and \<open>undefined\<close> inside an array is written \<open>null\<close>.
\<close>

fun jsonify :: "json \<Rightarrow> json" where
  "jsonify (JObj kvs) =
     JObj (map (\<lambda>(k, v). (k, jsonify v)) (filter (\<lambda>(k, v). v \<noteq> JUndefined) kvs))"
| "jsonify (JArr xs) = JArr (map (\<lambda>x. if x = JUndefined then JNull else jsonify x) xs)"
| "jsonify v = v"

fun js_string :: "string option \<Rightarrow> json" where
  "js_string None = JUndefined"
| "js_string (Some v) = JStr v"

text \<open>A string or \<open>undefined\<close> is falsy when it is \<open>undefined\<close> or empty.\<close>

fun falsy :: "string option \<Rightarrow> bool" where
  "falsy None = True"
| "falsy (Some v) = (v = [])"

text \<open>A string or \<open>undefined\<close> inside a template literal.\<close>

fun template :: "string option \<Rightarrow> string" where
  "template None = ''undefined''"
| "template (Some v) = v"

text \<open>\<open>s.split(c)\<close> for a one-character separator: never empty, \<open>"".split("/")\<close> is \<open>[""]\<close>.\<close>

fun split :: "char \<Rightarrow> string \<Rightarrow> string list" where
  "split c [] = [[]]"
| "split c (x # xs) =
     (if x = c then [] # split c xs
      else (case split c xs of [] \<Rightarrow> [[x]] | w # ws \<Rightarrow> (x # w) # ws))"

text \<open>\<open>.pop()\<close> on an array: its last element, \<open>undefined\<close> on the empty array.\<close>

fun pop :: "'a list \<Rightarrow> 'a option" where
  "pop [] = None"
| "pop xs = Some (last xs)"

subsection \<open>The outside services\<close>

record command =
  Names :: "string list"
  WithDecryption :: bool

record parameter =
  Name :: string
  Value :: "string option"

record ssm_response =
  Parameters :: "parameter list"

record conn_opts =
  host :: "string option"
  user :: "string option"
  password :: "string option"

record pool_opts = conn_opts +
  database :: "string option"
  connectionLimit :: nat
  ssl_rejectUnauthorized :: bool

type_synonym conn = nat

datatype pool = Pool pool_opts

text \<open>
  What \<open>db.query\<close> resolves to, first component: the rows of a SELECT, or the header of a
  statement that changes rows, with its \<open>affectedRows\<close> and its other fields.
\<close>

datatype qres = Rows "json list" | ResultSetHeader nat "(string \<times> json) list"

fun qres_json :: "qres \<Rightarrow> json" where
  "qres_json (Rows rs) = JArr rs"
| "qres_json (ResultSetHeader n other) = JObj ((''affectedRows'', JNum (real n)) # other)"

text \<open>
  The outside, as the program sees it. An answer of the parameter store always has its list
  \<open>Parameters\<close>, and each parameter its \<open>Name\<close>. Whether \<open>mysql.createPool\<close> rejects its options
  depends on the options only. \<open>uptime\<close> is \<open>process.uptime()\<close>, \<open>env\<close> is \<open>process.env\<close>.
\<close>

record 'w world =
  ssm_send :: "command \<Rightarrow> 'w \<Rightarrow> (error + ssm_response) \<times> 'w"
  createConnection :: "conn_opts \<Rightarrow> 'w \<Rightarrow> (error + conn) \<times> 'w"
  conn_query :: "conn \<Rightarrow> string \<Rightarrow> 'w \<Rightarrow> (error + unit) \<times> 'w"
  conn_end :: "conn \<Rightarrow> 'w \<Rightarrow> (error + unit) \<times> 'w"
  createPool_error :: "pool_opts \<Rightarrow> error option"
  pool_query :: "pool \<Rightarrow> string \<Rightarrow> json list \<Rightarrow> 'w \<Rightarrow> (error + qres) \<times> 'w"
  uptime :: "'w \<Rightarrow> real"
  env :: "string \<Rightarrow> string option"

subsection \<open>The process\<close>

text \<open>
  The lines written to the console, by the place that writes them (the source's texts carry
  an emoji each): line 53, 74, 107, 228 with \<open>console.log\<close>; line 77, 231, 135, 194, 214
  with \<open>console.error\<close>.
\<close>

datatype line =
    Database_verified
  | Connected_to_RDS
  | Tables_ready
  | Server_running_on_port nat
  | DB_connection_failed int string
  | App_failed_to_start error
  | DB_health_check_failed string
  | Delete_student_error error
  | Delete_teacher_error error

datatype event =
    SsmSend command
  | CreateConnection conn_opts
  | ConnQuery conn string
  | ConnEnd conn
  | CreatePool pool_opts
  | PoolQuery pool string "json list"
  | ConsoleLog line
  | ConsoleError line
  | SetTimeout int
  | Listen nat
  | ProcessExit int

text \<open>
  \<open>db\<close> is the module-level variable of line 13 (\<open>None\<close> is \<open>undefined\<close>); \<open>listening\<close>
  says that \<open>app.listen\<close> has been called, \<open>exit_code\<close> that \<open>process.exit\<close> has.
\<close>

record 'w proc =
  ext :: 'w
  trace :: "event list"
  db :: "pool option"
  listening :: bool
  exit_code :: "int option"

type_synonym ('w, 'a) action = "'w proc \<Rightarrow> (error + 'a) \<times> 'w proc"

definition emit :: "event \<Rightarrow> 'w proc \<Rightarrow> 'w proc" where
  "emit e s = s\<lparr>trace := trace s @ [e]\<rparr>"

text \<open>Awaiting one call of an outside service: the call is recorded, the outside moves on.\<close>

definition call :: "event \<Rightarrow> ('w \<Rightarrow> (error + 'a) \<times> 'w) \<Rightarrow> ('w, 'a) action" where
  "call e f s = (case f (ext s) of (r, x) \<Rightarrow> (r, (emit e s)\<lparr>ext := x\<rparr>))"

definition return :: "'a \<Rightarrow> ('w, 'a) action" where
  "return a s = (Inr a, s)"

definition throw :: "error \<Rightarrow> ('w, 'a) action" where
  "throw e s = (Inl e, s)"

text \<open>Sequencing: an error thrown by the first statement skips the rest.\<close>

definition seq :: "('w, 'a) action \<Rightarrow> ('a \<Rightarrow> ('w, 'b) action) \<Rightarrow> ('w, 'b) action" where
  "seq m f s = (case m s of (Inl e, s') \<Rightarrow> (Inl e, s') | (Inr a, s') \<Rightarrow> f a s')"

definition console_log :: "line \<Rightarrow> ('w, unit) action" where
  "console_log l s = (Inr (), emit (ConsoleLog l) s)"

definition console_error :: "line \<Rightarrow> ('w, unit) action" where
  "console_error l s = (Inr (), emit (ConsoleError l) s)"

subsection \<open>getDBConfig (lines 17-40)\<close>

type_synonym params = "(string \<times> string option) list"

text \<open>Reading a property: \<open>undefined\<close> when the object has no such key.\<close>

definition property :: "params \<Rightarrow> string \<Rightarrow> string option" where
  "property ps k = (case map_of ps k of None \<Rightarrow> None | Some v \<Rightarrow> v)"

definition db_command :: command where
  "db_command =
     \<lparr>Names = [''/myapp/db/host'', ''/myapp/db/user'', ''/myapp/db/password'', ''/myapp/db/name''],
      WithDecryption = True\<rparr>"

text \<open>
  Line 32: \<open>params[p.Name.split("/").pop()] = p.Value\<close>. The key is the part of the name
  after its last slash.
\<close>

definition key :: "parameter \<Rightarrow> string" where
  "key p = template (pop (split CHR ''/'' (Name p)))"

definition store :: "parameter \<Rightarrow> params \<Rightarrow> params" where
  "store p ps = AList.update (key p) (Value p) ps"

definition getDBConfig :: "'w world \<Rightarrow> ('w, params) action" where
  "getDBConfig W =
     seq (call (SsmSend db_command) (ssm_send W db_command)) (\<lambda>res.
       let params = fold store (Parameters res) []
       in if falsy (property params ''host'') \<or> falsy (property params ''user'')
             \<or> falsy (property params ''password'') \<or> falsy (property params ''name'')
          then throw (Error ''Missing DB parameters in SSM'')
          else return params)"

subsection \<open>ensureDatabaseExists (lines 44-54)\<close>

definition create_database_sql :: "params \<Rightarrow> string" where
  "create_database_sql config =
     ''CREATE DATABASE IF NOT EXISTS `'' @ template (property config ''name'') @ ''`''"

definition bootstrap_opts :: "params \<Rightarrow> conn_opts" where
  "bootstrap_opts config =
     \<lparr>host = property config ''host'', user = property config ''user'',
      password = property config ''password''\<rparr>"

definition ensureDatabaseExists :: "'w world \<Rightarrow> params \<Rightarrow> ('w, unit) action" where
  "ensureDatabaseExists W config =
     seq (call (CreateConnection (bootstrap_opts config))
            (createConnection W (bootstrap_opts config))) (\<lambda>conn.
     seq (call (ConnQuery conn (create_database_sql config))
            (conn_query W conn (create_database_sql config))) (\<lambda>_.
     seq (call (ConnEnd conn) (conn_end W conn)) (\<lambda>_.
     console_log Database_verified)))"

subsection \<open>connectWithRetry (lines 58-82)\<close>

definition pool_config :: "params \<Rightarrow> pool_opts" where
  "pool_config cfg =
     \<lparr>host = property cfg ''host'', user = property cfg ''user'', password = property cfg ''password'',
      database = property cfg ''name'', connectionLimit = 10, ssl_rejectUnauthorized = False\<rparr>"

definition createPool :: "'w world \<Rightarrow> pool_opts \<Rightarrow> ('w, pool) action" where
  "createPool W opts s =
     (case createPool_error W opts of
        Some e \<Rightarrow> (Inl e, emit (CreatePool opts) s)
      | None \<Rightarrow> (Inr (Pool opts), emit (CreatePool opts) s))"

text \<open>The body of the \<open>try\<close> block, lines 61-75: one startup attempt.\<close>

definition attempt :: "'w world \<Rightarrow> ('w, pool) action" where
  "attempt W =
     seq (getDBConfig W) (\<lambda>cfg.
     seq (ensureDatabaseExists W cfg) (\<lambda>_.
     seq (createPool W (pool_config cfg)) (\<lambda>pool.
     seq (console_log Connected_to_RDS) (\<lambda>_.
     return pool))))"

text \<open>
  The \<open>for\<close> loop from its counter \<open>i\<close> on. The result \<open>Inr None\<close> is the \<open>undefined\<close> of a
  function that runs off its end. \<open>retries\<close> and \<open>delay\<close> are integers here.
\<close>

function connectLoop ::
  "'w world \<Rightarrow> int \<Rightarrow> int \<Rightarrow> int \<Rightarrow> 'w proc \<Rightarrow> (error + pool option) \<times> 'w proc" where
  "connectLoop W retries delay i s =
     (if i \<le> retries then
        (case attempt W s of
           (Inr pool, s1) \<Rightarrow> (Inr (Some pool), s1)
         | (Inl err, s1) \<Rightarrow>
             (let s2 = emit (ConsoleError (DB_connection_failed i (message err))) s1
              in if i = retries then (Inl err, s2)
                 else connectLoop W retries delay (i + 1) (emit (SetTimeout delay) s2)))
      else (Inr None, s))"
  by pat_completeness auto
termination
  by (relation "measure (\<lambda>(W, retries, delay, i, s). nat (retries + 1 - i))") auto

definition connectWithRetry ::
  "'w world \<Rightarrow> int \<Rightarrow> int \<Rightarrow> 'w proc \<Rightarrow> (error + pool option) \<times> 'w proc" where
  "connectWithRetry W retries delay = connectLoop W retries delay 1"

subsection \<open>ensureTables (lines 86-108)\<close>

text \<open>The two statements, with the white space of the source's template literals reduced.\<close>

definition create_student_sql :: string where
  "create_student_sql =
     ''CREATE TABLE IF NOT EXISTS student ( id INT AUTO_INCREMENT PRIMARY KEY, '' @
     ''name VARCHAR(255), roll_number VARCHAR(255), class VARCHAR(255), '' @
     ''created_at TIMESTAMP DEFAULT CURRENT_TIMESTAMP )''"

definition create_teacher_sql :: string where
  "create_teacher_sql =
     ''CREATE TABLE IF NOT EXISTS teacher ( id INT AUTO_INCREMENT PRIMARY KEY, '' @
     ''name VARCHAR(255), subject VARCHAR(255), class VARCHAR(255), '' @
     ''created_at TIMESTAMP DEFAULT CURRENT_TIMESTAMP )''"

text \<open>\<open>d.query(sql, values)\<close>: a TypeError when \<open>d\<close> is \<open>undefined\<close>.\<close>

definition query :: "'w world \<Rightarrow> pool option \<Rightarrow> string \<Rightarrow> json list \<Rightarrow> ('w, qres) action" where
  "query W d sql vals =
     (case d of
        None \<Rightarrow> throw (TypeError ''Cannot read properties of undefined (reading query)'')
      | Some p \<Rightarrow> call (PoolQuery p sql vals) (pool_query W p sql vals))"

definition ensureTables :: "'w world \<Rightarrow> pool option \<Rightarrow> ('w, unit) action" where
  "ensureTables W d =
     seq (query W d create_student_sql []) (\<lambda>_.
     seq (query W d create_teacher_sql []) (\<lambda>_.
     console_log Tables_ready))"

subsection \<open>The start of the server (lines 221-234)\<close>

definition PORT :: nat where
  "PORT = 3500"

text \<open>\<open>app.listen(port, callback)\<close>, the port being free: the callback writes its line.\<close>

definition app_listen :: "nat \<Rightarrow> ('w, unit) action" where
  "app_listen port s =
     (Inr (), emit (ConsoleLog (Server_running_on_port port))
                (emit (Listen port) (s\<lparr>listening := True\<rparr>)))"

definition process_exit :: "int \<Rightarrow> 'w proc \<Rightarrow> 'w proc" where
  "process_exit c s = emit (ProcessExit c) (s\<lparr>exit_code := Some c\<rparr>)"

text \<open>\<open>connectWithRetry()\<close> is called with its defaults, 10 retries and 3000 ms.\<close>

definition start :: "'w world \<Rightarrow> 'w proc \<Rightarrow> 'w proc" where
  "start W s =
     (case connectWithRetry W 10 3000 s of
        (Inl err, s1) \<Rightarrow> process_exit 1 (emit (ConsoleError (App_failed_to_start err)) s1)
      | (Inr d, s1) \<Rightarrow>
          (case seq (ensureTables W d) (\<lambda>_. app_listen PORT) (s1\<lparr>db := d\<rparr>) of
             (Inl err, s2) \<Rightarrow> process_exit 1 (emit (ConsoleError (App_failed_to_start err)) s2)
           | (Inr _, s2) \<Rightarrow> s2))"

text \<open>The process as the module has been loaded: nothing called yet.\<close>

definition loaded :: "'w \<Rightarrow> 'w proc" where
  "loaded x = \<lparr>ext = x, trace = [], db = None, listening = False, exit_code = None\<rparr>"

subsection \<open>The routes (lines 113-217)\<close>

record response =
  status :: nat
  body :: json

text \<open>\<open>res.status(c).json(v)\<close>; \<open>res.json(v)\<close> alone answers with status 200.\<close>

definition res_json :: "nat \<Rightarrow> json \<Rightarrow> ('w, response) action" where
  "res_json c v = return \<lparr>status = c, body = jsonify v\<rparr>"

text \<open>A \<open>try\<close> block with its \<open>catch\<close>.\<close>

definition try_catch :: "('w, 'a) action \<Rightarrow> (error \<Rightarrow> ('w, 'a) action) \<Rightarrow> ('w, 'a) action" where
  "try_catch m h s = (case m s of (Inl e, s') \<Rightarrow> h e s' | (Inr a, s') \<Rightarrow> (Inr a, s'))"

definition get_health :: "'w world \<Rightarrow> ('w, response) action" where
  "get_health W s =
     res_json 200
       (JObj [(''status'', JStr ''ok''), (''service'', JStr ''backend''),
              (''uptime'', JNum (uptime W (ext s)))]) s"

text \<open>\<open>rows[0]\<close>: the first row, \<open>undefined\<close> when there is none.\<close>

fun first_row :: "qres \<Rightarrow> json" where
  "first_row (Rows (r # rs)) = r"
| "first_row _ = JUndefined"

definition get_health_db :: "'w world \<Rightarrow> ('w, response) action" where
  "get_health_db W s =
     try_catch
       (seq (query W (db s) ''SELECT 1 as db_up'' []) (\<lambda>rows.
          res_json 200
            (JObj [(''status'', JStr ''ok''), (''database'', JStr ''connected''),
                   (''host'', js_string (env W ''host'')),
                   (''database_name'', js_string (env W ''database'')),
                   (''result'', first_row rows)])))
       (\<lambda>error.
          seq (console_error (DB_health_check_failed (message error))) (\<lambda>_.
          res_json 500
            (JObj [(''status'', JStr ''error''), (''database'', JStr ''down''),
                   (''error'', JStr (message error))]))) s"

text \<open>The rocket that ends the message of \<open>GET /\<close>, U+1F680, in UTF-8.\<close>

definition rocket :: string where
  "rocket = [CHR 0xF0, CHR 0x9F, CHR 0x9A, CHR 0x80]"

definition get_root :: "'w world \<Rightarrow> ('w, response) action" where
  "get_root W s =
     seq (query W (db s) ''SELECT * FROM student'' []) (\<lambda>rows.
       res_json 200
         (JObj [(''message'', JStr (''Backend running '' @ rocket)), (''data'', qres_json rows)])) s"

definition get_student :: "'w world \<Rightarrow> ('w, response) action" where
  "get_student W s =
     seq (query W (db s) ''SELECT * FROM student'' []) (\<lambda>rows.
       res_json 200 (qres_json rows)) s"

definition get_teacher :: "'w world \<Rightarrow> ('w, response) action" where
  "get_teacher W s =
     seq (query W (db s) ''SELECT * FROM teacher'' []) (\<lambda>rows.
       res_json 200 (qres_json rows)) s"

text \<open>
  The parsed body of a POST, \<open>None\<close> when \<open>req.body\<close> is \<open>undefined\<close>; destructuring
  \<open>undefined\<close> is a TypeError, a missing field is \<open>undefined\<close>.
\<close>

definition field :: "(string \<times> json) list \<Rightarrow> string \<Rightarrow> json" where
  "field obj k = (case map_of obj k of None \<Rightarrow> JUndefined | Some v \<Rightarrow> v)"

definition post_addstudent ::
  "'w world \<Rightarrow> (string \<times> json) list option \<Rightarrow> ('w, response) action" where
  "post_addstudent W req_body s =
     (case req_body of
        None \<Rightarrow> throw (TypeError ''Cannot destructure property name of req.body'') s
      | Some b \<Rightarrow>
          seq (query W (db s) ''INSERT INTO student (name, roll_number, class) VALUES (?, ?, ?)''
                 [field b ''name'', field b ''rollNo'', field b ''class'']) (\<lambda>_.
            res_json 200 (JObj [(''message'', JStr ''Student added'')])) s)"

definition post_addteacher ::
  "'w world \<Rightarrow> (string \<times> json) list option \<Rightarrow> ('w, response) action" where
  "post_addteacher W req_body s =
     (case req_body of
        None \<Rightarrow> throw (TypeError ''Cannot destructure property name of req.body'') s
      | Some b \<Rightarrow>
          seq (query W (db s) ''INSERT INTO teacher (name, subject, class) VALUES (?, ?, ?)''
                 [field b ''name'', field b ''subject'', field b ''class'']) (\<lambda>_.
            res_json 200 (JObj [(''message'', JStr ''Teacher added'')])) s)"

text \<open>\<open>result.affectedRows === 0\<close>; rows of a SELECT have no such property.\<close>

fun no_row_affected :: "qres \<Rightarrow> bool" where
  "no_row_affected (ResultSetHeader n other) = (n = 0)"
| "no_row_affected (Rows rs) = False"

definition delete_student :: "'w world \<Rightarrow> string \<Rightarrow> ('w, response) action" where
  "delete_student W ident s =
     try_catch
       (seq (query W (db s) ''DELETE FROM student WHERE id = ?'' [JStr ident]) (\<lambda>result.
          if no_row_affected result
          then res_json 404 (JObj [(''message'', JStr ''Student not found'')])
          else res_json 200 (JObj [(''message'', JStr ''Student deleted successfully'')])))
       (\<lambda>err.
          seq (console_error (Delete_student_error err)) (\<lambda>_.
          res_json 500 (JObj [(''error'', JStr ''Failed to delete student'')]))) s"

definition delete_teacher :: "'w world \<Rightarrow> string \<Rightarrow> ('w, response) action" where
  "delete_teacher W ident s =
     try_catch
       (seq (query W (db s) ''DELETE FROM teacher WHERE id = ?'' [JStr ident]) (\<lambda>result.
          if no_row_affected result
          then res_json 404 (JObj [(''message'', JStr ''Teacher not found'')])
          else res_json 200 (JObj [(''message'', JStr ''Teacher deleted successfully'')])))
       (\<lambda>err.
          seq (console_error (Delete_teacher_error err)) (\<lambda>_.
          res_json 500 (JObj [(''error'', JStr ''Failed to delete teacher'')]))) s"

datatype request =
    GET_health
  | GET_health_db
  | GET_root
  | GET_student
  | GET_teacher
  | POST_addstudent "(string \<times> json) list option"
  | POST_addteacher "(string \<times> json) list option"
  | DELETE_student string
  | DELETE_teacher string

fun route :: "'w world \<Rightarrow> request \<Rightarrow> ('w, response) action" where
  "route W GET_health = get_health W"
| "route W GET_health_db = get_health_db W"
| "route W GET_root = get_root W"
| "route W GET_student = get_student W"
| "route W GET_teacher = get_teacher W"
| "route W (POST_addstudent req_body) = post_addstudent W req_body"
| "route W (POST_addteacher req_body) = post_addteacher W req_body"
| "route W (DELETE_student ident) = delete_student W ident"
| "route W (DELETE_teacher ident) = delete_teacher W ident"

text \<open>
  What a client sees of a request: no connection while the process is not listening; the
  response of the handler; or no response, when the handler's promise is rejected.
\<close>

datatype reply = Refused | Response response | Rejected error

definition serve :: "'w world \<Rightarrow> request \<Rightarrow> 'w proc \<Rightarrow> reply \<times> 'w proc" where
  "serve W req s =
     (if listening s \<and> exit_code s = None then
        (case route W req s of
           (Inl e, s') \<Rightarrow> (Rejected e, s')
         | (Inr r, s') \<Rightarrow> (Response r, s'))
      else (Refused, s))"

subsection \<open>Reading a trace\<close>

text \<open>The delays asked of \<open>setTimeout\<close>, in order.\<close>

fun delays :: "event list \<Rightarrow> int list" where
  "delays [] = []"
| "delays (SetTimeout d # es) = d # delays es"
| "delays (e # es) = delays es"

text \<open>The number of calls of the parameter store.\<close>

fun fetches :: "event list \<Rightarrow> nat" where
  "fetches [] = 0"
| "fetches (SsmSend c # es) = Suc (fetches es)"
| "fetches (e # es) = fetches es"

text \<open>The numbers of the attempts reported as failed (line 77), in order.\<close>

fun failed_attempts :: "event list \<Rightarrow> int list" where
  "failed_attempts [] = []"
| "failed_attempts (ConsoleError (DB_connection_failed i m) # es) = i # failed_attempts es"
| "failed_attempts (e # es) = failed_attempts es"

text \<open>The pools that the calls of \<open>mysql.createPool\<close> have returned, in order.\<close>

fun pools_created :: "'w world \<Rightarrow> event list \<Rightarrow> pool list" where
  "pools_created W [] = []"
| "pools_created W (CreatePool opts # es) =
     (case createPool_error W opts of
        None \<Rightarrow> Pool opts # pools_created W es
      | Some e \<Rightarrow> pools_created W es)"
| "pools_created W (e # es) = pools_created W es"

text \<open>
  The events of one attempt after its fetch: the driver's calls and \<open>console.log\<close>.
\<close>

fun inner :: "event \<Rightarrow> bool" where
  "inner (CreateConnection opts) = True"
| "inner (ConnQuery c sql) = True"
| "inner (ConnEnd c) = True"
| "inner (CreatePool opts) = True"
| "inner (ConsoleLog l) = True"
| "inner e = False"

text \<open>
  Every report of a failed attempt before the \<open>N\<close>-th is followed at once by a
  \<open>setTimeout\<close> of \<open>d\<close> and then by a fetch.
\<close>

fun disciplined :: "int \<Rightarrow> int \<Rightarrow> event list \<Rightarrow> bool" where
  "disciplined N d [] = True"
| "disciplined N d (ConsoleError (DB_connection_failed i m) # es) =
     ((i < N \<longrightarrow> take 2 es = [SetTimeout d, SsmSend db_command]) \<and> disciplined N d es)"
| "disciplined N d (e # es) = disciplined N d es"

subsection \<open>Concrete outsides\<close>

text \<open>
  Outsides on which the program can be run. Their state is the number of bootstrap
  connections asked for so far, which is also the handle of the next one. On \<open>steady\<close>
  every service answers.
\<close>

definition full_response :: ssm_response where
  "full_response =
     \<lparr>Parameters =
        [\<lparr>Name = ''/myapp/db/host'', Value = Some ''db.internal''\<rparr>,
         \<lparr>Name = ''/myapp/db/user'', Value = Some ''admin''\<rparr>,
         \<lparr>Name = ''/myapp/db/password'', Value = Some ''secret''\<rparr>,
         \<lparr>Name = ''/myapp/db/name'', Value = Some ''school''\<rparr>]\<rparr>"

definition answer :: "string \<Rightarrow> json list \<Rightarrow> qres" where
  "answer sql vals =
     (if sql = ''SELECT 1 as db_up'' then Rows [JObj [(''db_up'', JNum 1)]]
      else if sql = ''SELECT * FROM student''
        then Rows [JObj [(''id'', JNum 1), (''name'', JStr ''Alice''),
                         (''roll_number'', JStr ''A1''), (''class'', JStr ''5A'')]]
      else if sql = ''SELECT * FROM teacher'' then Rows []
      else if sql = ''DELETE FROM student WHERE id = ?''
              \<or> sql = ''DELETE FROM teacher WHERE id = ?''
        then ResultSetHeader (if vals = [JStr ''1''] then 1 else 0) []
      else ResultSetHeader 0 [])"

definition steady :: "nat world" where
  "steady =
     \<lparr>ssm_send = (\<lambda>c x. (Inr full_response, x)),
      createConnection = (\<lambda>opts x. (Inr x, Suc x)),
      conn_query = (\<lambda>c sql x. (Inr (), x)),
      conn_end = (\<lambda>c x. (Inr (), x)),
      createPool_error = (\<lambda>opts. None),
      pool_query = (\<lambda>p sql vals x. (Inr (answer sql vals), x)),
      uptime = (\<lambda>x. 12.5),
      env = (\<lambda>k. None)\<rparr>"

text \<open>The server accepts the bootstrap connection and refuses the statement.\<close>

definition statement_refused :: "nat world" where
  "statement_refused =
     steady\<lparr>conn_query := (\<lambda>c sql x. (Inl (Error ''Access denied''), x))\<rparr>"

text \<open>No bootstrap connection can be opened.\<close>

definition unreachable :: "nat world" where
  "unreachable =
     steady\<lparr>createConnection := (\<lambda>opts x. (Inl (Error ''connect ECONNREFUSED''), Suc x))\<rparr>"

text \<open>
  The first three bootstrap connections are refused, and the parameter store names another
  host from the fourth fetch on.
\<close>

definition moved_response :: ssm_response where
  "moved_response =
     \<lparr>Parameters =
        [\<lparr>Name = ''/myapp/db/host'', Value = Some ''db2.internal''\<rparr>,
         \<lparr>Name = ''/myapp/db/user'', Value = Some ''admin''\<rparr>,
         \<lparr>Name = ''/myapp/db/password'', Value = Some ''secret''\<rparr>,
         \<lparr>Name = ''/myapp/db/name'', Value = Some ''school''\<rparr>]\<rparr>"

definition flaky :: "nat world" where
  "flaky =
     steady\<lparr>ssm_send := (\<lambda>c x. (Inr (if x < 3 then full_response else moved_response), x)),
            createConnection :=
              (\<lambda>opts x. (if x < 3 then Inl (Error ''connect ECONNREFUSED'') else Inr x, Suc x))\<rparr>"

text \<open>The parameter store answers with an empty database name.\<close>

definition nameless_response :: ssm_response where
  "nameless_response =
     \<lparr>Parameters =
        [\<lparr>Name = ''/myapp/db/host'', Value = Some ''h''\<rparr>,
         \<lparr>Name = ''/myapp/db/user'', Value = Some ''u''\<rparr>,
         \<lparr>Name = ''/myapp/db/password'', Value = Some ''p''\<rparr>,
         \<lparr>Name = ''/myapp/db/name'', Value = Some []\<rparr>]\<rparr>"

definition nameless :: "nat world" where
  "nameless = steady\<lparr>ssm_send := (\<lambda>c x. (Inr nameless_response, x))\<rparr>"

text \<open>The environment of the process has a variable \<open>host\<close>.\<close>

definition with_env :: "nat world" where
  "with_env = steady\<lparr>env := (\<lambda>k. if k = ''host'' then Some ''db.internal'' else None)\<rparr>"

text \<open>Every statement sent through the pool fails.\<close>

definition db_down :: "nat world" where
  "db_down = steady\<lparr>pool_query := (\<lambda>p sql vals x. (Inl (Error ''Connection lost''), x))\<rparr>"

text \<open>The process after a start on \<open>steady\<close>: listening, with its pool.\<close>

definition serving :: "nat proc" where
  "serving = start steady (loaded 0)"

definition school_config :: params where
  "school_config =
     [(''host'', Some ''db.internal''), (''user'', Some ''admin''),
      (''password'', Some ''secret''), (''name'', Some ''school'')]"

definition moved_pool :: pool where
  "moved_pool =
     Pool \<lparr>host = Some ''db2.internal'', user = Some ''admin'', password = Some ''secret'',
           database = Some ''school'', connectionLimit = 10, ssl_rejectUnauthorized = False\<rparr>"

definition school_pool :: pool where
  "school_pool =
     Pool \<lparr>host = Some ''db.internal'', user = Some ''admin'', password = Some ''secret'',
           database = Some ''school'', connectionLimit = 10, ssl_rejectUnauthorized = False\<rparr>"

section \<open>The retry loop, round by round\<close>

declare connectLoop.simps [simp del]

lemma connectLoop_exit:
  "retries < i \<Longrightarrow> connectLoop W retries delay i s = (Inr None, s)"
  by (subst connectLoop.simps) simp

lemma connectLoop_success:
  "i \<le> retries \<Longrightarrow> attempt W s = (Inr p, s1) \<Longrightarrow>
   connectLoop W retries delay i s = (Inr (Some p), s1)"
  by (subst connectLoop.simps) simp

lemma connectLoop_last:
  "attempt W s = (Inl err, s1) \<Longrightarrow>
   connectLoop W retries delay retries s =
     (Inl err, emit (ConsoleError (DB_connection_failed retries (message err))) s1)"
  by (subst connectLoop.simps) simp

lemma connectLoop_retry:
  "i < retries \<Longrightarrow> attempt W s = (Inl err, s1) \<Longrightarrow>
   connectLoop W retries delay i s =
     connectLoop W retries delay (i + 1)
       (emit (SetTimeout delay) (emit (ConsoleError (DB_connection_failed i (message err))) s1))"
  by (subst connectLoop.simps) simp

text \<open>Induction along the loop: its four ways through one round.\<close>

lemma connectLoop_induct [consumes 0, case_names exit success last retry]:
  assumes "\<And>i s. retries < i \<Longrightarrow> P i s"
    and "\<And>i s p s1. i \<le> retries \<Longrightarrow> attempt W s = (Inr p, s1) \<Longrightarrow> P i s"
    and "\<And>s err s1. attempt W s = (Inl err, s1) \<Longrightarrow> P retries s"
    and "\<And>i s err s1. i < retries \<Longrightarrow> attempt W s = (Inl err, s1) \<Longrightarrow>
           P (i + 1) (emit (SetTimeout delay)
                        (emit (ConsoleError (DB_connection_failed i (message err))) s1)) \<Longrightarrow>
           P i s"
  shows "P i s"
proof -
  have "\<forall>j t. nat (retries + 1 - j) = n \<longrightarrow> P j t" for n
  proof (induction n)
    case 0
    show ?case
    proof (intro allI impI)
      fix j t
      assume "nat (retries + 1 - j) = 0"
      then have "retries < j" by simp
      then show "P j t" by (rule assms(1))
    qed
  next
    case (Suc n)
    show ?case
    proof (intro allI impI)
      fix j t
      assume m: "nat (retries + 1 - j) = Suc n"
      then have le: "j \<le> retries" by simp
      obtain r t1 where a: "attempt W t = (r, t1)" by (cases "attempt W t")
      show "P j t"
      proof (cases r)
        case (Inr p)
        with a have "attempt W t = (Inr p, t1)" by simp
        with le show ?thesis by (rule assms(2))
      next
        case (Inl err)
        with a have f: "attempt W t = (Inl err, t1)" by simp
        show ?thesis
        proof (cases "j = retries")
          case True
          with assms(3) [OF f] show ?thesis by simp
        next
          case False
          with le have lt: "j < retries" by simp
          from m have "nat (retries + 1 - (j + 1)) = n" by simp
          with Suc.IH have "P (j + 1) (emit (SetTimeout delay)
              (emit (ConsoleError (DB_connection_failed j (message err))) t1))"
            by blast
          with lt f show ?thesis by (rule assms(4))
        qed
      qed
    qed
  qed
  then show ?thesis by blast
qed

lemma connectLoop_some:
  "i \<le> retries \<Longrightarrow> fst (connectLoop W retries delay i s) \<noteq> Inr None"
proof (induction i s rule: connectLoop_induct [where retries = retries and W = W and delay = delay])
  case (exit i s)
  then show ?case by simp
next
  case (success i s p s1)
  then show ?case by (simp add: connectLoop_success)
next
  case (last s err s1)
  then show ?case by (simp add: connectLoop_last)
next
  case (retry i s err s1)
  then show ?case by (simp add: connectLoop_retry)
qed

section \<open>Evaluating actions\<close>

lemmas action_defs =
  seq_def call_def return_def throw_def try_catch_def console_log_def console_error_def
  res_json_def query_def

lemma seqE:
  assumes "seq m f s = (r, s')"
  obtains (stopped) e where "m s = (Inl e, s')" and "r = Inl e"
    | (continued) a s1 where "m s = (Inr a, s1)" and "f a s1 = (r, s')"
  using assms by (auto simp add: seq_def split: prod.splits sum.splits)

lemma serving_facts:
  "listening serving" "exit_code serving = None" "db serving = Some school_pool" "ext serving = 1"
  by code_simp+

lemma property_store:
  "property (store p ps) k = (if key p = k then Value p else property ps k)"
  by (simp add: property_def store_def update_conv')

lemma falsy_fold_store:
  "\<forall>p \<in> set ps. key p = k \<longrightarrow> falsy (Value p) \<Longrightarrow> falsy (property acc k) \<Longrightarrow>
   falsy (property (fold store ps acc) k)"
  by (induction ps arbitrary: acc) (simp_all add: property_store)

section \<open>Traces of the startup\<close>

lemma delays_append: "delays (xs @ ys) = delays xs @ delays ys"
  by (induction xs rule: delays.induct) simp_all

lemma fetches_append: "fetches (xs @ ys) = fetches xs + fetches ys"
  by (induction xs rule: fetches.induct) simp_all

lemma failed_attempts_append:
  "failed_attempts (xs @ ys) = failed_attempts xs @ failed_attempts ys"
  by (induction xs rule: failed_attempts.induct) simp_all

lemma pools_created_append:
  "pools_created W (xs @ ys) = pools_created W xs @ pools_created W ys"
  by (induction W xs rule: pools_created.induct) (simp_all split: option.split)

lemma inner_delays: "list_all inner xs \<Longrightarrow> delays xs = []"
  by (induction xs rule: delays.induct) simp_all

lemma inner_fetches: "list_all inner xs \<Longrightarrow> fetches xs = 0"
  by (induction xs rule: fetches.induct) simp_all

lemma inner_failed_attempts: "list_all inner xs \<Longrightarrow> failed_attempts xs = []"
  by (induction xs rule: failed_attempts.induct) simp_all

lemma inner_disciplined: "list_all inner xs \<Longrightarrow> disciplined N d (xs @ ys) = disciplined N d ys"
  by (induction N d xs rule: disciplined.induct) simp_all

lemma disciplined_split:
  "disciplined N d (pre @ ConsoleError (DB_connection_failed i m) # post) \<Longrightarrow> i < N \<Longrightarrow>
   take 2 post = [SetTimeout d, SsmSend db_command]"
  by (induction N d pre rule: disciplined.induct) simp_all

lemma upto_from: "i \<le> j \<Longrightarrow> i # [i + 1..j] = [i..j]"
  by (simp add: upto_rec1)

lemma getDBConfig_run:
  assumes "getDBConfig W s = (r, s1)"
  shows "trace s1 = trace s @ [SsmSend db_command]
         \<and> db s1 = db s \<and> listening s1 = listening s \<and> exit_code s1 = exit_code s"
  using assms
  by (auto simp add: getDBConfig_def action_defs emit_def Let_def
      split: prod.splits sum.splits if_splits)

lemma ensureDatabaseExists_run:
  assumes "ensureDatabaseExists W config s = (r, s1)"
  shows "\<exists>tl. trace s1 = trace s @ tl \<and> list_all inner tl \<and> pools_created W tl = []
           \<and> db s1 = db s \<and> listening s1 = listening s \<and> exit_code s1 = exit_code s"
  using assms
  by (auto simp add: ensureDatabaseExists_def action_defs emit_def
      split: prod.splits sum.splits)

lemma createPool_run:
  assumes "createPool W opts s = (r, s1)"
  shows "trace s1 = trace s @ [CreatePool opts]
         \<and> (case r of
               Inl e \<Rightarrow> createPool_error W opts = Some e
             | Inr p \<Rightarrow> createPool_error W opts = None \<and> p = Pool opts)
         \<and> db s1 = db s \<and> listening s1 = listening s \<and> exit_code s1 = exit_code s"
  using assms
  by (auto simp add: createPool_def emit_def split: option.splits)

text \<open>One attempt: a fetch, then inner events; a pool is created exactly when it succeeds.\<close>

lemma attempt_run:
  assumes "attempt W s = (r, s1)"
  shows "\<exists>tl. trace s1 = trace s @ SsmSend db_command # tl \<and> list_all inner tl
           \<and> pools_created W tl = (case r of Inl e \<Rightarrow> [] | Inr p \<Rightarrow> [p])
           \<and> (case r of Inl e \<Rightarrow> True
               | Inr p \<Rightarrow> tl \<noteq> [] \<and> last tl = ConsoleLog Connected_to_RDS)
           \<and> db s1 = db s \<and> listening s1 = listening s \<and> exit_code s1 = exit_code s"
  using assms unfolding attempt_def
proof (cases rule: seqE)
  case (stopped e)
  with getDBConfig_run [OF stopped(1)] show ?thesis by simp
next
  case (continued cfg sa)
  note G = getDBConfig_run [OF continued(1)]
  from continued(2) show ?thesis
  proof (cases rule: seqE)
    case (stopped e)
    from ensureDatabaseExists_run [OF stopped(1)] G stopped(2) show ?thesis by auto
  next
    case (continued u sb)
    from ensureDatabaseExists_run [OF continued(1)] obtain tl where
      E: "trace sb = trace sa @ tl" "list_all inner tl" "pools_created W tl = []"
        "db sb = db sa" "listening sb = listening sa" "exit_code sb = exit_code sa"
      by blast
    from continued(2) show ?thesis
    proof (cases rule: seqE)
      case (stopped e)
      from createPool_run [OF stopped(1)] G E stopped(2) show ?thesis
        by (simp add: pools_created_append)
    next
      case (continued p sc)
      note C = createPool_run [OF continued(1)]
      from continued(2) have "r = Inr p" "s1 = emit (ConsoleLog Connected_to_RDS) sc"
        by (simp_all add: action_defs)
      with C G E show ?thesis
        by (simp add: pools_created_append emit_def)
    qed
  qed
qed

text \<open>The pool of a successful attempt is built from the configuration it has fetched.\<close>

lemma attempt_fresh:
  assumes "attempt W s = (Inr p, s1)"
  shows "\<exists>cfg t'. getDBConfig W s = (Inr cfg, t') \<and> p = Pool (pool_config cfg)"
  using assms unfolding attempt_def
proof (cases rule: seqE)
  case (continued cfg sa)
  from continued(2) have "p = Pool (pool_config cfg)"
    by (auto simp add: seq_def createPool_def return_def console_log_def
        split: prod.splits sum.splits option.splits)
  with continued(1) show ?thesis by blast
qed simp

text \<open>
  A run of the loop from round \<open>i\<close>: what it adds to the trace, by its result. The
  variables of the process are left as they were.
\<close>

lemma connectLoop_run:
  "\<exists>tr. trace (snd (connectLoop W N d i s)) = trace s @ tr
     \<and> db (snd (connectLoop W N d i s)) = db s
     \<and> listening (snd (connectLoop W N d i s)) = listening s
     \<and> exit_code (snd (connectLoop W N d i s)) = exit_code s
     \<and> disciplined N d tr
     \<and> (i \<le> N \<longrightarrow> take 1 tr = [SsmSend db_command])
     \<and> (case fst (connectLoop W N d i s) of
          Inr None \<Rightarrow> N < i \<and> tr = []
        | Inr (Some p) \<Rightarrow>
            i + int (length (failed_attempts tr)) \<le> N
            \<and> failed_attempts tr = [i..i + int (length (failed_attempts tr)) - 1]
            \<and> delays tr = replicate (length (failed_attempts tr)) d
            \<and> fetches tr = length (failed_attempts tr) + 1
            \<and> pools_created W tr = [p]
            \<and> last tr = ConsoleLog Connected_to_RDS
        | Inl e \<Rightarrow>
            i \<le> N
            \<and> failed_attempts tr = [i..N]
            \<and> delays tr = replicate (nat (N - i)) d
            \<and> fetches tr = nat (N - i) + 1
            \<and> pools_created W tr = []
            \<and> last tr = ConsoleError (DB_connection_failed N (message e)))"
proof (induction i s rule: connectLoop_induct [where retries = N and W = W and delay = d])
  case (exit i s)
  then show ?case by (simp add: connectLoop_exit)
next
  case (success i s p s1)
  from attempt_run [OF success(2)] obtain tl where
    "trace s1 = trace s @ SsmSend db_command # tl" "list_all inner tl"
    "pools_created W tl = [p]" "tl \<noteq> []" "last tl = ConsoleLog Connected_to_RDS"
    "db s1 = db s" "listening s1 = listening s" "exit_code s1 = exit_code s"
    by auto
  with success show ?case
    by (intro exI [of _ "SsmSend db_command # tl"])
      (simp add: connectLoop_success inner_delays inner_fetches inner_failed_attempts
        inner_disciplined [of tl N d "[]", simplified])
next
  case (last s err s1)
  from attempt_run [OF last(1)] obtain tl where
    "trace s1 = trace s @ SsmSend db_command # tl" "list_all inner tl"
    "pools_created W tl = []"
    "db s1 = db s" "listening s1 = listening s" "exit_code s1 = exit_code s"
    by auto
  with last show ?case
    by (intro exI [of _ "SsmSend db_command # tl @ [ConsoleError (DB_connection_failed N (message err))]"])
      (simp add: connectLoop_last emit_def inner_delays inner_fetches inner_failed_attempts
        inner_disciplined delays_append fetches_append failed_attempts_append
        pools_created_append)
next
  case (retry i s err s1)
  from attempt_run [OF retry(2)] obtain tl where
    T: "trace s1 = trace s @ SsmSend db_command # tl" "list_all inner tl"
    "pools_created W tl = []"
    "db s1 = db s" "listening s1 = listening s" "exit_code s1 = exit_code s"
    by auto
  let ?s2 = "emit (SetTimeout d) (emit (ConsoleError (DB_connection_failed i (message err))) s1)"
  let ?run = "connectLoop W N d (i + 1) ?s2"
  let ?head = "SsmSend db_command # tl @ [ConsoleError (DB_connection_failed i (message err)), SetTimeout d]"
  from retry(3) obtain tr where
    R: "trace (snd ?run) = trace ?s2 @ tr" "db (snd ?run) = db ?s2"
      "listening (snd ?run) = listening ?s2" "exit_code (snd ?run) = exit_code ?s2"
      "disciplined N d tr" "take 1 tr = [SsmSend db_command]"
    and C: "case fst ?run of
          Inr None \<Rightarrow> N < i + 1 \<and> tr = []
        | Inr (Some p) \<Rightarrow>
            i + 1 + int (length (failed_attempts tr)) \<le> N
            \<and> failed_attempts tr = [i + 1..i + 1 + int (length (failed_attempts tr)) - 1]
            \<and> delays tr = replicate (length (failed_attempts tr)) d
            \<and> fetches tr = length (failed_attempts tr) + 1
            \<and> pools_created W tr = [p]
            \<and> last tr = ConsoleLog Connected_to_RDS
        | Inl e \<Rightarrow>
            i + 1 \<le> N
            \<and> failed_attempts tr = [i + 1..N]
            \<and> delays tr = replicate (nat (N - (i + 1))) d
            \<and> fetches tr = nat (N - (i + 1)) + 1
            \<and> pools_created W tr = []
            \<and> last tr = ConsoleError (DB_connection_failed N (message e))"
    using retry(1) by auto
  from R(6) have ne: "tr \<noteq> []" by auto
  have eq: "connectLoop W N d i s = ?run"
    using retry(1,2) by (rule connectLoop_retry)
  define full where "full = ?head @ tr"
  have frame: "trace (snd (connectLoop W N d i s)) = trace s @ full"
    "db (snd (connectLoop W N d i s)) = db s"
    "listening (snd (connectLoop W N d i s)) = listening s"
    "exit_code (snd (connectLoop W N d i s)) = exit_code s"
    using R T by (simp_all add: eq emit_def full_def)
  have disc: "disciplined N d full"
    using R(5,6) T(2) ne by (cases tr) (simp_all add: inner_disciplined full_def)
  have hd: "take 1 full = [SsmSend db_command]" by (simp add: full_def)
  have fa: "failed_attempts full = i # failed_attempts tr"
    and de: "delays full = d # delays tr"
    and fe: "fetches full = Suc (fetches tr)"
    and po: "pools_created W full = pools_created W tr"
    and la: "last full = last tr"
    using T(2,3) ne
    by (simp_all add: failed_attempts_append delays_append fetches_append pools_created_append
        inner_failed_attempts inner_delays inner_fetches full_def)
  have summary: "case fst (connectLoop W N d i s) of
          Inr None \<Rightarrow> N < i \<and> full = []
        | Inr (Some p) \<Rightarrow>
            i + int (length (failed_attempts full)) \<le> N
            \<and> failed_attempts full = [i..i + int (length (failed_attempts full)) - 1]
            \<and> delays full = replicate (length (failed_attempts full)) d
            \<and> fetches full = length (failed_attempts full) + 1
            \<and> pools_created W full = [p]
            \<and> last full = ConsoleLog Connected_to_RDS
        | Inl e \<Rightarrow>
            i \<le> N
            \<and> failed_attempts full = [i..N]
            \<and> delays full = replicate (nat (N - i)) d
            \<and> fetches full = nat (N - i) + 1
            \<and> pools_created W full = []
            \<and> last full = ConsoleError (DB_connection_failed N (message e))"
  proof (cases "fst ?run")
    case (Inl e)
    with C have c: "failed_attempts tr = [i + 1..N]" "delays tr = replicate (nat (N - (i + 1))) d"
      "fetches tr = nat (N - (i + 1)) + 1" "pools_created W tr = []"
      "last tr = ConsoleError (DB_connection_failed N (message e))"
      by simp_all
    from retry(1) have n: "nat (N - i) = Suc (nat (N - (i + 1)))" by simp
    from retry(1) have u: "i # [i + 1..N] = [i..N]" by (simp add: upto_from)
    from Inl c retry(1) show ?thesis
      unfolding eq fa de fe po la by (simp add: n u)
  next
    case (Inr v)
    show ?thesis
    proof (cases v)
      case None
      with Inr C retry(1) show ?thesis by simp
    next
      case (Some p)
      let ?k = "int (length (failed_attempts tr))"
      from Some Inr C have c: "i + 1 + ?k \<le> N"
        "failed_attempts tr = [i + 1..i + 1 + ?k - 1]"
        "delays tr = replicate (length (failed_attempts tr)) d"
        "fetches tr = length (failed_attempts tr) + 1" "pools_created W tr = [p]"
        "last tr = ConsoleLog Connected_to_RDS"
        by simp_all
      have "i # [i + 1..i + ?k] = [i..i + ?k]"
        by (rule upto_from) simp
      with c(2) have t1: "failed_attempts full = [i..i + int (length (failed_attempts full)) - 1]"
        by (simp add: fa)
      from c(1) have t2: "i + int (length (failed_attempts full)) \<le> N"
        by (simp add: fa)
      from c(3) have t3: "delays full = replicate (length (failed_attempts full)) d"
        by (simp add: fa de)
      from c(4) have t4: "fetches full = length (failed_attempts full) + 1"
        by (simp add: fa fe)
      from c(5) have t5: "pools_created W full = [p]"
        by (simp add: po)
      from c(6) have t6: "last full = ConsoleLog Connected_to_RDS"
        by (simp add: la)
      from t1 t2 t3 t4 t5 t6 show ?thesis
        unfolding eq Inr Some sum.case option.case by blast
    qed
  qed
  from frame disc hd summary show ?case
    by (intro exI [of _ full]) simp
qed

lemma connectLoop_fresh:
  "fst (connectLoop W N d i s) = Inr (Some p) \<longrightarrow>
   (\<exists>t cfg t' pre post.
      trace (snd (connectLoop W N d i s)) = trace s @ pre @ SsmSend db_command # post
      \<and> fetches post = 0 \<and> trace t = trace s @ pre
      \<and> getDBConfig W t = (Inr cfg, t')
      \<and> attempt W t = (Inr p, snd (connectLoop W N d i s))
      \<and> p = Pool (pool_config cfg))"
proof (induction i s rule: connectLoop_induct [where retries = N and W = W and delay = d])
  case (exit i s)
  then show ?case by (simp add: connectLoop_exit)
next
  case (success i s q s1)
  from attempt_run [OF success(2)] obtain tl where
    T: "trace s1 = trace s @ SsmSend db_command # tl" "list_all inner tl"
    by auto
  from attempt_fresh [OF success(2)] obtain cfg t' where
    F: "getDBConfig W s = (Inr cfg, t')" "q = Pool (pool_config cfg)"
    by blast
  show ?case
  proof
    assume "fst (connectLoop W N d i s) = Inr (Some p)"
    with success have "p = q" by (simp add: connectLoop_success)
    with success T F show "\<exists>t cfg t' pre post.
      trace (snd (connectLoop W N d i s)) = trace s @ pre @ SsmSend db_command # post
      \<and> fetches post = 0 \<and> trace t = trace s @ pre
      \<and> getDBConfig W t = (Inr cfg, t')
      \<and> attempt W t = (Inr p, snd (connectLoop W N d i s))
      \<and> p = Pool (pool_config cfg)"
      by (intro exI [of _ s] exI [of _ cfg] exI [of _ t'] exI [of _ "[]"] exI [of _ tl])
        (simp add: connectLoop_success inner_fetches)
  qed
next
  case (last s err s1)
  then show ?case by (simp add: connectLoop_last)
next
  case (retry i s err s1)
  from attempt_run [OF retry(2)] obtain tl where
    T: "trace s1 = trace s @ SsmSend db_command # tl"
    by auto
  let ?s2 = "emit (SetTimeout d) (emit (ConsoleError (DB_connection_failed i (message err))) s1)"
  let ?head = "SsmSend db_command # tl @ [ConsoleError (DB_connection_failed i (message err)), SetTimeout d]"
  have eq: "connectLoop W N d i s = connectLoop W N d (i + 1) ?s2"
    using retry(1,2) by (rule connectLoop_retry)
  have h: "trace ?s2 = trace s @ ?head" using T by (simp add: emit_def)
  show ?case
  proof
    assume "fst (connectLoop W N d i s) = Inr (Some p)"
    with retry(3) eq obtain t cfg t' pre post where
      "trace (snd (connectLoop W N d i s)) = trace ?s2 @ pre @ SsmSend db_command # post"
      "fetches post = 0" "trace t = trace ?s2 @ pre" "getDBConfig W t = (Inr cfg, t')"
      "attempt W t = (Inr p, snd (connectLoop W N d i s))" "p = Pool (pool_config cfg)"
      by auto
    then show "\<exists>t cfg t' pre post.
      trace (snd (connectLoop W N d i s)) = trace s @ pre @ SsmSend db_command # post
      \<and> fetches post = 0 \<and> trace t = trace s @ pre
      \<and> getDBConfig W t = (Inr cfg, t')
      \<and> attempt W t = (Inr p, snd (connectLoop W N d i s))
      \<and> p = Pool (pool_config cfg)"
      unfolding h
      by (intro exI [of _ t] exI [of _ cfg] exI [of _ t'] exI [of _ "?head @ pre"] exI [of _ post])
        simp
  qed
qed

lemma connectWithRetry_frame:
  "db (snd (connectWithRetry W N d s)) = db s
   \<and> listening (snd (connectWithRetry W N d s)) = listening s
   \<and> exit_code (snd (connectWithRetry W N d s)) = exit_code s"
  using connectLoop_run [of W N d 1 s] by (auto simp add: connectWithRetry_def)



text \<open>The start on \<open>unreachable\<close>, round by round.\<close>

lemma attempt_unreachable:
  "attempt unreachable s =
     (Inl (Error ''connect ECONNREFUSED''),
      s\<lparr>ext := Suc (ext s),
        trace := trace s @ [SsmSend db_command, CreateConnection (bootstrap_opts school_config)]\<rparr>)"
  by (simp add: attempt_def getDBConfig_def ensureDatabaseExists_def action_defs emit_def
      unreachable_def steady_def full_response_def store_def key_def property_def
      bootstrap_opts_def school_config_def Let_def)

lemmas unreachable_retry = connectLoop_retry [OF _ attempt_unreachable]

lemmas unreachable_last = connectLoop_last [OF attempt_unreachable]

lemma unreachable_run:
  "fst (connectWithRetry unreachable 10 3000 s) = Inl (Error ''connect ECONNREFUSED'')"
  by (simp add: connectWithRetry_def unreachable_retry unreachable_last)


text \<open>
  What a run of \<open>connectWithRetry\<close> adds to the trace: after every report of a failed
  attempt before the last come the delay and a fetch; and a pool comes after \<open>k\<close> failed
  attempts, \<open>k\<close> delays and \<open>k + 1\<close> fetches, from the configuration of the last fetch.
\<close>

lemma connectWithRetry_trace:
  "\<exists>tr. trace (snd (connectWithRetry W retries delay s)) = trace s @ tr
     \<and> (\<forall>pre i m post.
          tr = pre @ ConsoleError (DB_connection_failed i m) # post \<and> i < retries \<longrightarrow>
          take 2 post = [SetTimeout delay, SsmSend db_command])
     \<and> (\<forall>p. fst (connectWithRetry W retries delay s) = Inr (Some p) \<longrightarrow>
          failed_attempts tr = [1..int (length (failed_attempts tr))]
          \<and> int (length (failed_attempts tr)) < retries
          \<and> delays tr = replicate (length (failed_attempts tr)) delay
          \<and> fetches tr = length (failed_attempts tr) + 1
          \<and> (\<exists>t cfg t' pre post.
                tr = pre @ SsmSend db_command # post \<and> fetches post = 0
                \<and> trace t = trace s @ pre
                \<and> getDBConfig W t = (Inr cfg, t')
                \<and> attempt W t = (Inr p, snd (connectWithRetry W retries delay s))
                \<and> p = Pool (pool_config cfg)))"
proof -
  let ?run = "connectLoop W retries delay 1 s"
  from connectLoop_run [of W retries delay 1 s] obtain tr where
    R: "trace (snd ?run) = trace s @ tr" "disciplined retries delay tr"
    and C: "case fst ?run of
          Inr None \<Rightarrow> retries < 1 \<and> tr = []
        | Inr (Some p) \<Rightarrow>
            1 + int (length (failed_attempts tr)) \<le> retries
            \<and> failed_attempts tr = [1..1 + int (length (failed_attempts tr)) - 1]
            \<and> delays tr = replicate (length (failed_attempts tr)) delay
            \<and> fetches tr = length (failed_attempts tr) + 1
            \<and> pools_created W tr = [p]
            \<and> last tr = ConsoleLog Connected_to_RDS
        | Inl e \<Rightarrow>
            1 \<le> retries
            \<and> failed_attempts tr = [1..retries]
            \<and> delays tr = replicate (nat (retries - 1)) delay
            \<and> fetches tr = nat (retries - 1) + 1
            \<and> pools_created W tr = []
            \<and> last tr = ConsoleError (DB_connection_failed retries (message e))"
    by blast
  have a: "\<forall>pre i m post.
          tr = pre @ ConsoleError (DB_connection_failed i m) # post \<and> i < retries \<longrightarrow>
          take 2 post = [SetTimeout delay, SsmSend db_command]"
    using R(2) by (auto dest: disciplined_split)
  have b: "failed_attempts tr = [1..int (length (failed_attempts tr))]
          \<and> int (length (failed_attempts tr)) < retries
          \<and> delays tr = replicate (length (failed_attempts tr)) delay
          \<and> fetches tr = length (failed_attempts tr) + 1
          \<and> (\<exists>t cfg t' pre post.
                tr = pre @ SsmSend db_command # post \<and> fetches post = 0
                \<and> trace t = trace s @ pre
                \<and> getDBConfig W t = (Inr cfg, t')
                \<and> attempt W t = (Inr p, snd ?run)
                \<and> p = Pool (pool_config cfg))"
    if p: "fst ?run = Inr (Some p)" for p
  proof -
    from p C have c: "1 + int (length (failed_attempts tr)) \<le> retries"
      "failed_attempts tr = [1..1 + int (length (failed_attempts tr)) - 1]"
      "delays tr = replicate (length (failed_attempts tr)) delay"
      "fetches tr = length (failed_attempts tr) + 1"
      by simp_all
    from connectLoop_fresh [of W retries delay 1 s p] p obtain t cfg t' pre post where
      f: "trace (snd ?run) = trace s @ pre @ SsmSend db_command # post"
      "fetches post = 0" "trace t = trace s @ pre" "getDBConfig W t = (Inr cfg, t')"
      "attempt W t = (Inr p, snd ?run)" "p = Pool (pool_config cfg)"
      by blast
    from f(1) R(1) have "tr = pre @ SsmSend db_command # post" by simp
    with f have "\<exists>t cfg t' pre post.
                tr = pre @ SsmSend db_command # post \<and> fetches post = 0
                \<and> trace t = trace s @ pre
                \<and> getDBConfig W t = (Inr cfg, t')
                \<and> attempt W t = (Inr p, snd ?run)
                \<and> p = Pool (pool_config cfg)"
      by blast
    moreover from c(2) have "failed_attempts tr = [1..int (length (failed_attempts tr))]"
      by simp
    moreover from c(1) have "int (length (failed_attempts tr)) < retries" by simp
    ultimately show ?thesis using c(3,4) by blast
  qed
  from R(1) a b show ?thesis
    unfolding connectWithRetry_def by blast
qed

text \<open>A round before the last whose attempt fails: the report, the delay, a new fetch.\<close>

lemma connectLoop_retry_trace:
  assumes "i < retries" and "attempt W t = (Inl err, t1)"
  shows "\<exists>rest. trace (snd (connectLoop W retries delay i t)) =
           trace t1 @ ConsoleError (DB_connection_failed i (message err))
             # SetTimeout delay # SsmSend db_command # rest"
proof -
  let ?t2 = "emit (SetTimeout delay) (emit (ConsoleError (DB_connection_failed i (message err))) t1)"
  from connectLoop_run [of W retries delay "i + 1" ?t2] obtain tr where
    r: "trace (snd (connectLoop W retries delay (i + 1) ?t2)) = trace ?t2 @ tr"
      "i + 1 \<le> retries \<longrightarrow> take 1 tr = [SsmSend db_command]"
    by blast
  from r(2) assms(1) have "take 1 tr = [SsmSend db_command]" by simp
  then have "tr = SsmSend db_command # drop 1 tr"
    by (cases tr) simp_all
  with r(1) have "trace (snd (connectLoop W retries delay i t)) =
           trace t1 @ ConsoleError (DB_connection_failed i (message err))
             # SetTimeout delay # SsmSend db_command # drop 1 tr"
    by (simp add: connectLoop_retry [OF assms] emit_def)
  then show ?thesis by (rule exI)
qed

text \<open>Three failed attempts and a fourth that succeeds.\<close>

lemma three_failures_then_pool:
  assumes n: "4 \<le> retries"
    and a1: "attempt W s = (Inl e1, s1)"
    and a2: "attempt W (emit (SetTimeout delay)
               (emit (ConsoleError (DB_connection_failed 1 (message e1))) s1)) = (Inl e2, s2)"
    and a3: "attempt W (emit (SetTimeout delay)
               (emit (ConsoleError (DB_connection_failed 2 (message e2))) s2)) = (Inl e3, s3)"
    and a4: "attempt W (emit (SetTimeout delay)
               (emit (ConsoleError (DB_connection_failed 3 (message e3))) s3)) = (Inr p, s4)"
  shows "connectWithRetry W retries delay s = (Inr (Some p), s4)
         \<and> delays (drop (length (trace s)) (trace s4)) = [delay, delay, delay]
         \<and> fetches (drop (length (trace s)) (trace s4)) = 4"
proof -
  from n have l: "1 < retries" "2 < retries" "3 < retries" "4 \<le> retries" by simp_all
  have "connectWithRetry W retries delay s = (Inr (Some p), s4)"
    using connectLoop_retry [OF l(1) a1, of delay] connectLoop_retry [OF l(2) a2, of delay]
      connectLoop_retry [OF l(3) a3, of delay] connectLoop_success [OF l(4) a4, of delay]
    by (simp add: connectWithRetry_def)
  moreover
  from attempt_run [OF a1] obtain tl1 where
    t1: "trace s1 = trace s @ SsmSend db_command # tl1" "list_all inner tl1" by blast
  from attempt_run [OF a2] obtain tl2 where
    t2: "trace s2 = trace (emit (SetTimeout delay)
               (emit (ConsoleError (DB_connection_failed 1 (message e1))) s1))
            @ SsmSend db_command # tl2" "list_all inner tl2" by blast
  from attempt_run [OF a3] obtain tl3 where
    t3: "trace s3 = trace (emit (SetTimeout delay)
               (emit (ConsoleError (DB_connection_failed 2 (message e2))) s2))
            @ SsmSend db_command # tl3" "list_all inner tl3" by blast
  from attempt_run [OF a4] obtain tl4 where
    t4: "trace s4 = trace (emit (SetTimeout delay)
               (emit (ConsoleError (DB_connection_failed 3 (message e3))) s3))
            @ SsmSend db_command # tl4" "list_all inner tl4" by blast
  have "drop (length (trace s)) (trace s4) =
      (SsmSend db_command # tl1)
      @ (ConsoleError (DB_connection_failed 1 (message e1)) # SetTimeout delay
          # SsmSend db_command # tl2)
      @ (ConsoleError (DB_connection_failed 2 (message e2)) # SetTimeout delay
          # SsmSend db_command # tl3)
      @ (ConsoleError (DB_connection_failed 3 (message e3)) # SetTimeout delay
          # SsmSend db_command # tl4)"
    by (simp add: t4(1) t3(1) t2(1) t1(1) emit_def)
  then have "delays (drop (length (trace s)) (trace s4)) = [delay, delay, delay]"
    "fetches (drop (length (trace s)) (trace s4)) = 4"
    using t1(2) t2(2) t3(2) t4(2)
    by (simp_all add: delays_append fetches_append inner_delays inner_fetches)
  ultimately show ?thesis by blast
qed

text \<open>One attempt on \<open>statement_refused\<close>.\<close>

lemma attempt_statement_refused:
  "attempt statement_refused s =
     (Inl (Error ''Access denied''),
      s\<lparr>ext := Suc (ext s),
        trace := trace s @ [SsmSend db_command, CreateConnection (bootstrap_opts school_config),
                            ConnQuery (ext s) (create_database_sql school_config)]\<rparr>)"
  by (simp add: attempt_def getDBConfig_def ensureDatabaseExists_def action_defs emit_def
      statement_refused_def steady_def full_response_def store_def key_def property_def
      bootstrap_opts_def create_database_sql_def school_config_def Let_def)

text \<open>
  The three ways through \<open>ensureDatabaseExists\<close>: \<open>conn.end()\<close> is called when the statement
  has succeeded, and neither when the statement fails nor when no connection is opened.
\<close>

lemma ensureDatabaseExists_paths:
  "(\<forall>conn x1 x2 r x3.
      createConnection W (bootstrap_opts config) (ext s) = (Inr conn, x1)
      \<and> conn_query W conn (create_database_sql config) x1 = (Inr (), x2)
      \<and> conn_end W conn x2 = (r, x3) \<longrightarrow>
      ensureDatabaseExists W config s =
        (case r of
           Inl e \<Rightarrow>
             (Inl e, s\<lparr>ext := x3,
                trace := trace s @ [CreateConnection (bootstrap_opts config),
                  ConnQuery conn (create_database_sql config), ConnEnd conn]\<rparr>)
         | Inr u \<Rightarrow>
             (Inr (), s\<lparr>ext := x3,
                trace := trace s @ [CreateConnection (bootstrap_opts config),
                  ConnQuery conn (create_database_sql config), ConnEnd conn,
                  ConsoleLog Database_verified]\<rparr>)))
   \<and> (\<forall>conn x1 e x2.
      createConnection W (bootstrap_opts config) (ext s) = (Inr conn, x1)
      \<and> conn_query W conn (create_database_sql config) x1 = (Inl e, x2) \<longrightarrow>
      ensureDatabaseExists W config s =
        (Inl e, s\<lparr>ext := x2,
           trace := trace s @ [CreateConnection (bootstrap_opts config),
             ConnQuery conn (create_database_sql config)]\<rparr>))
   \<and> (\<forall>e x1.
      createConnection W (bootstrap_opts config) (ext s) = (Inl e, x1) \<longrightarrow>
      ensureDatabaseExists W config s =
        (Inl e, s\<lparr>ext := x1, trace := trace s @ [CreateConnection (bootstrap_opts config)]\<rparr>))"
  by (auto simp add: ensureDatabaseExists_def action_defs emit_def split: sum.split)

section \<open>The claims\<close>

text \<open>
  C1. The spec has \<open>ensureDatabaseExists\<close> close its bootstrap connection on every way out,
  a failure of the statement included. The code closes it on the way out of a statement
  that succeeds (line 52) and not otherwise: on \<open>statement_refused\<close> the connection 0 is
  opened, the statement fails, and the error leaves the function with no \<open>conn.end()\<close>
  called.
\<close>

theorem ensureDatabaseExists_leaves_connection_open:
  "createConnection statement_refused (bootstrap_opts school_config) (ext (loaded 0)) = (Inr 0, 1)
   \<and> fst (ensureDatabaseExists statement_refused school_config (loaded 0))
       = Inl (Error ''Access denied'')
   \<and> trace (snd (ensureDatabaseExists statement_refused school_config (loaded 0)))
       = [CreateConnection (bootstrap_opts school_config),
          ConnQuery 0 (create_database_sql school_config)]
   \<and> ConnEnd 0 \<notin> set (trace (snd (ensureDatabaseExists statement_refused school_config (loaded 0))))"
  by (simp add: ensureDatabaseExists_def action_defs emit_def statement_refused_def steady_def
      loaded_def)

text \<open>
  C2. In every round \<open>i < retries\<close> whose attempt fails, \<open>connectWithRetry\<close> reports the
  failure, asks \<open>setTimeout\<close> for \<open>delay\<close> and goes on with round \<open>i + 1\<close> from the state
  reached, and round \<open>i + 1\<close> begins with a new call of the parameter store, the first step
  of \<open>getDBConfig\<close>. In particular, when attempts 1 to 3 fail and attempt 4 succeeds, with
  at least 4 retries, the pool of attempt 4 is returned after exactly three delays of
  \<open>delay\<close> and four fetches. In the events added to the trace, every report of a failed
  attempt \<open>i < retries\<close> is followed at once by the delay and a fetch; a pool is returned
  after \<open>k < retries\<close> failed attempts, 1 to \<open>k\<close>, exactly \<open>k\<close> delays and \<open>k + 1\<close> fetches, and
  is built from the configuration that the last fetch returned. On \<open>flaky\<close> attempts 1 to
  3 fail and attempt 4 succeeds, with the defaults: three delays of 3000 ms, four fetches,
  and the pool of the host that only the fourth fetch names. On \<open>statement_refused\<close> with
  two retries, the first attempt is reported, waited for and followed by a fetch.
\<close>

theorem connectWithRetry_waits_and_refetches:
  "(\<forall>i t err t1.
      i < retries \<and> attempt W t = (Inl err, t1) \<longrightarrow>
      connectLoop W retries delay i t =
        connectLoop W retries delay (i + 1)
          (emit (SetTimeout delay) (emit (ConsoleError (DB_connection_failed i (message err))) t1))
      \<and> (\<exists>rest. trace (snd (connectLoop W retries delay i t)) =
            trace t1 @ ConsoleError (DB_connection_failed i (message err))
              # SetTimeout delay # SsmSend db_command # rest))
   \<and> (\<forall>e1 s1 e2 s2 e3 s3 p s4.
        4 \<le> retries
        \<and> attempt W s = (Inl e1, s1)
        \<and> attempt W (emit (SetTimeout delay)
             (emit (ConsoleError (DB_connection_failed 1 (message e1))) s1)) = (Inl e2, s2)
        \<and> attempt W (emit (SetTimeout delay)
             (emit (ConsoleError (DB_connection_failed 2 (message e2))) s2)) = (Inl e3, s3)
        \<and> attempt W (emit (SetTimeout delay)
             (emit (ConsoleError (DB_connection_failed 3 (message e3))) s3)) = (Inr p, s4) \<longrightarrow>
        connectWithRetry W retries delay s = (Inr (Some p), s4)
        \<and> delays (drop (length (trace s)) (trace s4)) = [delay, delay, delay]
        \<and> fetches (drop (length (trace s)) (trace s4)) = 4)
   \<and> (\<exists>tr. trace (snd (connectWithRetry W retries delay s)) = trace s @ tr
     \<and> (\<forall>pre i m post.
          tr = pre @ ConsoleError (DB_connection_failed i m) # post \<and> i < retries \<longrightarrow>
          take 2 post = [SetTimeout delay, SsmSend db_command])
     \<and> (\<forall>p. fst (connectWithRetry W retries delay s) = Inr (Some p) \<longrightarrow>
          failed_attempts tr = [1..int (length (failed_attempts tr))]
          \<and> int (length (failed_attempts tr)) < retries
          \<and> delays tr = replicate (length (failed_attempts tr)) delay
          \<and> fetches tr = length (failed_attempts tr) + 1
          \<and> (\<exists>t cfg t' pre post.
                tr = pre @ SsmSend db_command # post \<and> fetches post = 0
                \<and> trace t = trace s @ pre
                \<and> getDBConfig W t = (Inr cfg, t')
                \<and> attempt W t = (Inr p, snd (connectWithRetry W retries delay s))
                \<and> p = Pool (pool_config cfg))))"
proof (intro conjI allI impI)
  fix i t err t1
  assume "i < retries \<and> attempt W t = (Inl err, t1)"
  then have h: "i < retries" "attempt W t = (Inl err, t1)" by simp_all
  from h show "connectLoop W retries delay i t =
        connectLoop W retries delay (i + 1)
          (emit (SetTimeout delay) (emit (ConsoleError (DB_connection_failed i (message err))) t1))"
    by (rule connectLoop_retry)
  from h show "\<exists>rest. trace (snd (connectLoop W retries delay i t)) =
            trace t1 @ ConsoleError (DB_connection_failed i (message err))
              # SetTimeout delay # SsmSend db_command # rest"
    by (rule connectLoop_retry_trace)
next
  fix e1 s1 e2 s2 e3 s3 p s4
  assume "4 \<le> retries
        \<and> attempt W s = (Inl e1, s1)
        \<and> attempt W (emit (SetTimeout delay)
             (emit (ConsoleError (DB_connection_failed 1 (message e1))) s1)) = (Inl e2, s2)
        \<and> attempt W (emit (SetTimeout delay)
             (emit (ConsoleError (DB_connection_failed 2 (message e2))) s2)) = (Inl e3, s3)
        \<and> attempt W (emit (SetTimeout delay)
             (emit (ConsoleError (DB_connection_failed 3 (message e3))) s3)) = (Inr p, s4)"
  then have h: "4 \<le> retries" "attempt W s = (Inl e1, s1)"
    "attempt W (emit (SetTimeout delay)
             (emit (ConsoleError (DB_connection_failed 1 (message e1))) s1)) = (Inl e2, s2)"
    "attempt W (emit (SetTimeout delay)
             (emit (ConsoleError (DB_connection_failed 2 (message e2))) s2)) = (Inl e3, s3)"
    "attempt W (emit (SetTimeout delay)
             (emit (ConsoleError (DB_connection_failed 3 (message e3))) s3)) = (Inr p, s4)"
    by simp_all
  note r = three_failures_then_pool [OF h]
  from r show "connectWithRetry W retries delay s = (Inr (Some p), s4)" by (rule conjunct1)
  from r show "delays (drop (length (trace s)) (trace s4)) = [delay, delay, delay]"
    by (rule conjunct1 [OF conjunct2])
  from r show "fetches (drop (length (trace s)) (trace s4)) = 4"
    by (rule conjunct2 [OF conjunct2])
next
  show "\<exists>tr. trace (snd (connectWithRetry W retries delay s)) = trace s @ tr
     \<and> (\<forall>pre i m post.
          tr = pre @ ConsoleError (DB_connection_failed i m) # post \<and> i < retries \<longrightarrow>
          take 2 post = [SetTimeout delay, SsmSend db_command])
     \<and> (\<forall>p. fst (connectWithRetry W retries delay s) = Inr (Some p) \<longrightarrow>
          failed_attempts tr = [1..int (length (failed_attempts tr))]
          \<and> int (length (failed_attempts tr)) < retries
          \<and> delays tr = replicate (length (failed_attempts tr)) delay
          \<and> fetches tr = length (failed_attempts tr) + 1
          \<and> (\<exists>t cfg t' pre post.
                tr = pre @ SsmSend db_command # post \<and> fetches post = 0
                \<and> trace t = trace s @ pre
                \<and> getDBConfig W t = (Inr cfg, t')
                \<and> attempt W t = (Inr p, snd (connectWithRetry W retries delay s))
                \<and> p = Pool (pool_config cfg)))"
    by (rule connectWithRetry_trace)
qed

theorem connectWithRetry_waits_and_refetches_witness:
  "connectWithRetry flaky 10 3000 (loaded 0) =
     (Inr (Some moved_pool), snd (connectWithRetry flaky 10 3000 (loaded 0)))
   \<and> failed_attempts (trace (snd (connectWithRetry flaky 10 3000 (loaded 0)))) = [1, 2, 3]
   \<and> delays (trace (snd (connectWithRetry flaky 10 3000 (loaded 0)))) = [3000, 3000, 3000]
   \<and> fetches (trace (snd (connectWithRetry flaky 10 3000 (loaded 0)))) = 4
   \<and> trace (snd (connectWithRetry flaky 10 3000 (loaded 0))) ! 2
       = ConsoleError (DB_connection_failed 1 ''connect ECONNREFUSED'')
   \<and> take 2 (drop 3 (trace (snd (connectWithRetry flaky 10 3000 (loaded 0)))))
       = [SetTimeout 3000, SsmSend db_command]
   \<and> take 6 (trace (snd (connectWithRetry statement_refused 2 3000 (loaded 0))))
       = [SsmSend db_command, CreateConnection (bootstrap_opts school_config),
          ConnQuery 0 (create_database_sql school_config),
          ConsoleError (DB_connection_failed 1 ''Access denied''),
          SetTimeout 3000, SsmSend db_command]"
proof -
  note T = connectWithRetry_waits_and_refetches
  let ?run = "connectWithRetry flaky 10 3000 (loaded 0)"
  let ?refused = "Error ''connect ECONNREFUSED''"
  let ?s1 = "snd (attempt flaky (loaded 0))"
  let ?w1 = "emit (SetTimeout 3000)
    (emit (ConsoleError (DB_connection_failed 1 (message ?refused))) ?s1)"
  let ?s2 = "snd (attempt flaky ?w1)"
  let ?w2 = "emit (SetTimeout 3000)
    (emit (ConsoleError (DB_connection_failed 2 (message ?refused))) ?s2)"
  let ?s3 = "snd (attempt flaky ?w2)"
  let ?w3 = "emit (SetTimeout 3000)
    (emit (ConsoleError (DB_connection_failed 3 (message ?refused))) ?s3)"
  let ?s4 = "snd (attempt flaky ?w3)"
  have f1: "fst (attempt flaky (loaded 0)) = Inl ?refused" by code_simp
  have f2: "fst (attempt flaky ?w1) = Inl ?refused" by code_simp
  have f3: "fst (attempt flaky ?w2) = Inl ?refused" by code_simp
  have f4: "fst (attempt flaky ?w3) = Inr moved_pool" by code_simp
  have a1: "attempt flaky (loaded 0) = (Inl ?refused, ?s1)"
    using f1 by (simp add: prod_eq_iff)
  have a2: "attempt flaky ?w1 = (Inl ?refused, ?s2)"
    using f2 by (simp add: prod_eq_iff)
  have a3: "attempt flaky ?w2 = (Inl ?refused, ?s3)"
    using f3 by (simp add: prod_eq_iff)
  have a4: "attempt flaky ?w3 = (Inr moved_pool, ?s4)"
    using f4 by (simp add: prod_eq_iff)
  have n: "(4::int) \<le> 10" by simp
  note scenario = T [of 10 flaky 3000 "loaded 0", THEN conjunct2, THEN conjunct1, rule_format,
      OF conjI [OF n conjI [OF a1 conjI [OF a2 conjI [OF a3 a4]]]]]
  from scenario have r: "?run = (Inr (Some moved_pool), ?s4)" by (rule conjunct1)
  then have sn: "snd ?run = ?s4" by simp
  from scenario [THEN conjunct2] have d: "delays (trace (snd ?run)) = [3000, 3000, 3000]"
    "fetches (trace (snd ?run)) = 4"
    unfolding sn by (simp_all add: loaded_def)
  have f: "failed_attempts (trace (snd ?run)) = [1, 2, 3]"
    by code_simp
  have k: "trace (snd ?run) ! 2 = ConsoleError (DB_connection_failed 1 ''connect ECONNREFUSED'')"
    by code_simp
  have l: "2 < length (trace (snd ?run))"
    by code_simp
  from T [of 10 flaky 3000 "loaded 0", THEN conjunct2, THEN conjunct2] obtain tr where
    t: "trace (snd ?run) = trace (loaded (0::nat)) @ tr"
    and o: "\<forall>pre i m post.
          tr = pre @ ConsoleError (DB_connection_failed i m) # post \<and> i < 10 \<longrightarrow>
          take 2 post = [SetTimeout 3000, SsmSend db_command]"
    by (elim exE conjE) blast
  from t have tr: "tr = trace (snd ?run)" by (simp add: loaded_def)
  from id_take_nth_drop [OF l] k
  have "tr = take 2 tr @ ConsoleError (DB_connection_failed 1 ''connect ECONNREFUSED'') # drop 3 tr"
    by (simp add: tr)
  with o have adj: "take 2 (drop 3 tr) = [SetTimeout 3000, SsmSend db_command]"
    by (elim allE [of _ "take 2 tr"] allE [of _ 1] allE [of _ "''connect ECONNREFUSED''"]
        allE [of _ "drop 3 tr"]) simp
  have one: "(1::int) < 2" by simp
  from T [of 2 statement_refused 3000 "loaded 0", THEN conjunct1, rule_format,
      OF conjI [OF one attempt_statement_refused [of "loaded 0"]], THEN conjunct2]
  obtain rest where
    "trace (snd (connectLoop statement_refused 2 3000 1 (loaded (0::nat)))) =
       trace ((loaded (0::nat))\<lparr>ext := Suc (ext (loaded (0::nat))),
          trace := trace (loaded (0::nat)) @ [SsmSend db_command,
            CreateConnection (bootstrap_opts school_config),
            ConnQuery (ext (loaded (0::nat))) (create_database_sql school_config)]\<rparr>)
       @ ConsoleError (DB_connection_failed 1 (message (Error ''Access denied'')))
         # SetTimeout 3000 # SsmSend db_command # rest"
    by blast
  then have m: "take 6 (trace (snd (connectWithRetry statement_refused 2 3000 (loaded 0))))
       = [SsmSend db_command, CreateConnection (bootstrap_opts school_config),
          ConnQuery 0 (create_database_sql school_config),
          ConsoleError (DB_connection_failed 1 ''Access denied''),
          SetTimeout 3000, SsmSend db_command]"
    by (simp add: connectWithRetry_def loaded_def)
  from r sn d f k adj m show ?thesis by (simp add: tr)
qed

text \<open>
  C3. When the attempt of round \<open>N\<close>, the last, fails, the loop reports it and throws its
  error, with no \<open>setTimeout\<close> and no further fetch: a run that ends in an error has made
  exactly \<open>N\<close> attempts and \<open>N - 1\<close> delays, and its last event is the report of attempt \<open>N\<close>
  with the message of the error thrown. At the start of the server (10 retries) such an
  error is written to the console and the process exits with status 1, without listening.
\<close>

theorem final_failure_is_fatal:
  "(\<forall>e s1. attempt W s = (Inl e, s1) \<longrightarrow>
      connectLoop W N d N s = (Inl e, emit (ConsoleError (DB_connection_failed N (message e))) s1))
   \<and> (\<forall>e. fst (connectWithRetry W N d s) = Inl e \<longrightarrow>
        (\<exists>tr. trace (snd (connectWithRetry W N d s)) = trace s @ tr
           \<and> failed_attempts tr = [1..N]
           \<and> fetches tr = nat N
           \<and> delays tr = replicate (nat (N - 1)) d
           \<and> last tr = ConsoleError (DB_connection_failed N (message e))))
   \<and> (\<forall>e. fst (connectWithRetry W 10 3000 s) = Inl e \<longrightarrow>
        start W s = process_exit 1 (emit (ConsoleError (App_failed_to_start e))
                      (snd (connectWithRetry W 10 3000 s)))
        \<and> exit_code (start W s) = Some 1
        \<and> listening (start W s) = listening s
        \<and> last (trace (start W s)) = ProcessExit 1)"
proof (intro conjI allI impI)
  fix e s1
  assume "attempt W s = (Inl e, s1)"
  then show "connectLoop W N d N s
      = (Inl e, emit (ConsoleError (DB_connection_failed N (message e))) s1)"
    by (rule connectLoop_last)
next
  fix e
  assume f: "fst (connectWithRetry W N d s) = Inl e"
  from connectLoop_run [of W N d 1 s] obtain tr where
    r: "trace (snd (connectLoop W N d 1 s)) = trace s @ tr"
    and c: "case fst (connectLoop W N d 1 s) of
          Inr None \<Rightarrow> N < 1 \<and> tr = []
        | Inr (Some p) \<Rightarrow>
            1 + int (length (failed_attempts tr)) \<le> N
            \<and> failed_attempts tr = [1..1 + int (length (failed_attempts tr)) - 1]
            \<and> delays tr = replicate (length (failed_attempts tr)) d
            \<and> fetches tr = length (failed_attempts tr) + 1
            \<and> pools_created W tr = [p]
            \<and> last tr = ConsoleLog Connected_to_RDS
        | Inl e \<Rightarrow>
            1 \<le> N
            \<and> failed_attempts tr = [1..N]
            \<and> delays tr = replicate (nat (N - 1)) d
            \<and> fetches tr = nat (N - 1) + 1
            \<and> pools_created W tr = []
            \<and> last tr = ConsoleError (DB_connection_failed N (message e))"
    by blast
  from f c have "1 \<le> N" "failed_attempts tr = [1..N]" "delays tr = replicate (nat (N - 1)) d"
    "fetches tr = nat (N - 1) + 1" "last tr = ConsoleError (DB_connection_failed N (message e))"
    by (simp_all add: connectWithRetry_def)
  moreover from this(1) have "nat (N - 1) + 1 = nat N" by simp
  ultimately have "trace (snd (connectWithRetry W N d s)) = trace s @ tr
           \<and> failed_attempts tr = [1..N]
           \<and> fetches tr = nat N
           \<and> delays tr = replicate (nat (N - 1)) d
           \<and> last tr = ConsoleError (DB_connection_failed N (message e))"
    using r by (simp add: connectWithRetry_def)
  then show "\<exists>tr. trace (snd (connectWithRetry W N d s)) = trace s @ tr
           \<and> failed_attempts tr = [1..N]
           \<and> fetches tr = nat N
           \<and> delays tr = replicate (nat (N - 1)) d
           \<and> last tr = ConsoleError (DB_connection_failed N (message e))"
    by (rule exI)
next
  fix e
  assume f: "fst (connectWithRetry W 10 3000 s) = Inl e"
  then have st: "start W s = process_exit 1 (emit (ConsoleError (App_failed_to_start e))
                      (snd (connectWithRetry W 10 3000 s)))"
    by (cases "connectWithRetry W 10 3000 s") (simp add: start_def)
  then show "start W s = process_exit 1 (emit (ConsoleError (App_failed_to_start e))
                      (snd (connectWithRetry W 10 3000 s)))" .
  from st show "exit_code (start W s) = Some 1"
    by (simp add: process_exit_def emit_def)
  from st connectWithRetry_frame [of W 10 3000 s] show "listening (start W s) = listening s"
    by (simp add: process_exit_def emit_def)
  from st show "last (trace (start W s)) = ProcessExit 1"
    by (simp add: process_exit_def emit_def)
qed

theorem final_failure_is_fatal_witness:
  "fst (connectWithRetry unreachable 10 3000 (loaded 0)) = Inl (Error ''connect ECONNREFUSED'')
   \<and> failed_attempts (trace (snd (connectWithRetry unreachable 10 3000 (loaded 0)))) = [1..10]
   \<and> fetches (trace (snd (connectWithRetry unreachable 10 3000 (loaded 0)))) = 10
   \<and> delays (trace (snd (connectWithRetry unreachable 10 3000 (loaded 0)))) = replicate 9 3000
   \<and> exit_code (start unreachable (loaded 0)) = Some 1
   \<and> \<not> listening (start unreachable (loaded 0))
   \<and> last (trace (start unreachable (loaded 0))) = ProcessExit 1"
proof -
  let ?run = "connectWithRetry unreachable 10 3000 (loaded 0)"
  have e: "fst ?run = Inl (Error ''connect ECONNREFUSED'')"
    by (rule unreachable_run)
  note T = final_failure_is_fatal [of unreachable "loaded 0" 10 3000]
  from T [THEN conjunct2, THEN conjunct1, rule_format, OF e] obtain tr where
    t: "trace (snd ?run) = trace (loaded (0::nat)) @ tr"
      "failed_attempts tr = [1..10]" "fetches tr = nat 10"
      "delays tr = replicate (nat (10 - 1)) 3000"
    by blast
  note x = T [THEN conjunct2, THEN conjunct2, rule_format, OF e]
  from t(1) have "tr = trace (snd ?run)" by (simp add: loaded_def)
  with t(2-4) have "failed_attempts (trace (snd ?run)) = [1..10]"
    "fetches (trace (snd ?run)) = 10" "delays (trace (snd ?run)) = replicate 9 3000"
    by simp_all
  moreover note x [THEN conjunct2, THEN conjunct1]
  moreover from x [THEN conjunct2, THEN conjunct2, THEN conjunct1]
  have "\<not> listening (start unreachable (loaded 0))" by (simp add: loaded_def)
  moreover note x [THEN conjunct2, THEN conjunct2, THEN conjunct2]
  ultimately show ?thesis using e by blast
qed

text \<open>
  C4. When the parameter store answers and, for one of the four keys \<open>host\<close>, \<open>user\<close>,
  \<open>password\<close>, \<open>name\<close>, every parameter of the answer with that key has no value or the empty
  value (so also when no parameter has that key), \<open>getDBConfig\<close> throws its error
  "Missing DB parameters in SSM" and returns no configuration. The witness is the answer
  with host "h", user "u", password "p" and name "".
\<close>

theorem getDBConfig_missing_value:
  assumes "ssm_send W db_command (ext s) = (Inr res, x)"
    and "k \<in> {''host'', ''user'', ''password'', ''name''}"
    and "\<forall>p \<in> set (Parameters res). key p = k \<longrightarrow> falsy (Value p)"
  shows "fst (getDBConfig W s) = Inl (Error ''Missing DB parameters in SSM'')"
proof -
  have "falsy (property [] k)" by (simp add: property_def)
  with assms(3) have "falsy (property (fold store (Parameters res) []) k)"
    by (rule falsy_fold_store)
  with assms(1,2) show ?thesis
    by (auto simp add: getDBConfig_def action_defs Let_def)
qed

theorem getDBConfig_missing_value_witness:
  "ssm_send nameless db_command (ext (loaded 0)) = (Inr nameless_response, 0)
   \<and> map key (Parameters nameless_response) = [''host'', ''user'', ''password'', ''name'']
   \<and> map Value (Parameters nameless_response) = [Some ''h'', Some ''u'', Some ''p'', Some []]
   \<and> fst (getDBConfig nameless (loaded 0)) = Inl (Error ''Missing DB parameters in SSM'')"
proof -
  have a: "ssm_send nameless db_command (ext (loaded 0)) = (Inr nameless_response, 0)"
    by (simp add: nameless_def steady_def loaded_def)
  have b: "map key (Parameters nameless_response) = [''host'', ''user'', ''password'', ''name'']"
    by (simp add: nameless_response_def key_def)
  have c: "map Value (Parameters nameless_response) = [Some ''h'', Some ''u'', Some ''p'', Some []]"
    by (simp add: nameless_response_def)
  have d: "\<forall>p \<in> set (Parameters nameless_response). key p = ''name'' \<longrightarrow> falsy (Value p)"
    by (simp add: nameless_response_def key_def)
  from getDBConfig_missing_value [OF a _ d] a b c show ?thesis by simp
qed



text \<open>
  C6. On a listening server, \<open>DELETE /student/:id\<close> answers 404 with message
  "Student not found" when the statement affects no row, 200 when it affects a row, and 500
  when the statement fails; \<open>DELETE /teacher/:id\<close> does the same with "Teacher not found".
\<close>

theorem delete_routes_status:
  assumes "listening s" and "exit_code s = None" and "db s = Some p"
  shows
    "(\<forall>n other x.
        pool_query W p ''DELETE FROM student WHERE id = ?'' [JStr ident] (ext s)
          = (Inr (ResultSetHeader n other), x) \<longrightarrow>
        fst (serve W (DELETE_student ident) s) =
          (if n = 0
           then Response \<lparr>status = 404, body = JObj [(''message'', JStr ''Student not found'')]\<rparr>
           else Response \<lparr>status = 200,
                   body = JObj [(''message'', JStr ''Student deleted successfully'')]\<rparr>))
     \<and> (\<forall>err x.
        pool_query W p ''DELETE FROM student WHERE id = ?'' [JStr ident] (ext s) = (Inl err, x) \<longrightarrow>
        fst (serve W (DELETE_student ident) s) =
          Response \<lparr>status = 500, body = JObj [(''error'', JStr ''Failed to delete student'')]\<rparr>)
     \<and> (\<forall>n other x.
        pool_query W p ''DELETE FROM teacher WHERE id = ?'' [JStr ident] (ext s)
          = (Inr (ResultSetHeader n other), x) \<longrightarrow>
        fst (serve W (DELETE_teacher ident) s) =
          (if n = 0
           then Response \<lparr>status = 404, body = JObj [(''message'', JStr ''Teacher not found'')]\<rparr>
           else Response \<lparr>status = 200,
                   body = JObj [(''message'', JStr ''Teacher deleted successfully'')]\<rparr>))
     \<and> (\<forall>err x.
        pool_query W p ''DELETE FROM teacher WHERE id = ?'' [JStr ident] (ext s) = (Inl err, x) \<longrightarrow>
        fst (serve W (DELETE_teacher ident) s) =
          Response \<lparr>status = 500, body = JObj [(''error'', JStr ''Failed to delete teacher'')]\<rparr>)"
  using assms
  by (simp add: serve_def delete_student_def delete_teacher_def action_defs)

theorem delete_routes_status_witness:
  "listening serving \<and> exit_code serving = None \<and> db serving = Some school_pool
   \<and> fst (serve steady (DELETE_student ''1'') serving) =
       Response \<lparr>status = 200, body = JObj [(''message'', JStr ''Student deleted successfully'')]\<rparr>
   \<and> fst (serve steady (DELETE_student ''999'') serving) =
       Response \<lparr>status = 404, body = JObj [(''message'', JStr ''Student not found'')]\<rparr>
   \<and> fst (serve db_down (DELETE_student ''999'') serving) =
       Response \<lparr>status = 500, body = JObj [(''error'', JStr ''Failed to delete student'')]\<rparr>
   \<and> fst (serve steady (DELETE_teacher ''1'') serving) =
       Response \<lparr>status = 200, body = JObj [(''message'', JStr ''Teacher deleted successfully'')]\<rparr>
   \<and> fst (serve steady (DELETE_teacher ''999'') serving) =
       Response \<lparr>status = 404, body = JObj [(''message'', JStr ''Teacher not found'')]\<rparr>
   \<and> fst (serve db_down (DELETE_teacher ''999'') serving) =
       Response \<lparr>status = 500, body = JObj [(''error'', JStr ''Failed to delete teacher'')]\<rparr>"
proof -
  note t = delete_routes_status [OF serving_facts(1-3)]
  have s1: "pool_query steady school_pool ''DELETE FROM student WHERE id = ?'' [JStr ''1''] (ext serving)
      = (Inr (ResultSetHeader 1 []), 1)"
    and s2: "pool_query steady school_pool ''DELETE FROM student WHERE id = ?'' [JStr ''999'']
      (ext serving) = (Inr (ResultSetHeader 0 []), 1)"
    and s3: "pool_query db_down school_pool ''DELETE FROM student WHERE id = ?'' [JStr ''999'']
      (ext serving) = (Inl (Error ''Connection lost''), 1)"
    and t1: "pool_query steady school_pool ''DELETE FROM teacher WHERE id = ?'' [JStr ''1''] (ext serving)
      = (Inr (ResultSetHeader 1 []), 1)"
    and t2: "pool_query steady school_pool ''DELETE FROM teacher WHERE id = ?'' [JStr ''999'']
      (ext serving) = (Inr (ResultSetHeader 0 []), 1)"
    and t3: "pool_query db_down school_pool ''DELETE FROM teacher WHERE id = ?'' [JStr ''999'']
      (ext serving) = (Inl (Error ''Connection lost''), 1)"
    by (simp_all add: serving_facts steady_def db_down_def answer_def)
  from t [of steady "''1''"] t [of steady "''999''"] t [of db_down "''999''"] s1 s2 s3 t1 t2 t3
  show ?thesis
    by (simp add: serving_facts)
qed




text \<open>
  C8, as the spec has it: when the probe query succeeds the body of \<open>GET /health/db\<close> is
  status "ok", database "connected" and result \<open>{db_up: 1}\<close>, and nothing else. Where the
  environment has a variable \<open>host\<close> the body has a field \<open>host\<close> too.
\<close>

theorem health_db_body_counterexample:
  "fst (pool_query with_env school_pool ''SELECT 1 as db_up'' [] (ext serving))
     = Inr (Rows [JObj [(''db_up'', JNum 1)]])
   \<and> fst (serve with_env GET_health_db serving) =
       Response \<lparr>status = 200,
         body = JObj [(''status'', JStr ''ok''), (''database'', JStr ''connected''),
                      (''host'', JStr ''db.internal''),
                      (''result'', JObj [(''db_up'', JNum 1)])]\<rparr>"
  by (simp add: serve_def get_health_db_def action_defs serving_facts with_env_def steady_def
      answer_def)

text \<open>
  C8, amended. On a listening server, when the probe query succeeds with first row
  \<open>{db_up: 1}\<close>, \<open>GET /health/db\<close> answers 200 with status "ok", database "connected", then
  \<open>host\<close> and \<open>database_name\<close> for those of the environment variables \<open>host\<close> and \<open>database\<close>
  that are set, then result \<open>{db_up: 1}\<close>; when the query fails it answers 500 with status
  "error", database "down" and the message of the error.
\<close>

theorem health_db_reports:
  assumes "listening s" and "exit_code s = None" and "db s = Some p"
  shows
    "(\<forall>rs x.
        pool_query W p ''SELECT 1 as db_up'' [] (ext s)
          = (Inr (Rows (JObj [(''db_up'', JNum 1)] # rs)), x) \<longrightarrow>
        fst (serve W GET_health_db s) =
          Response \<lparr>status = 200,
            body = JObj ([(''status'', JStr ''ok''), (''database'', JStr ''connected'')]
                     @ (case env W ''host'' of None \<Rightarrow> [] | Some h \<Rightarrow> [(''host'', JStr h)])
                     @ (case env W ''database'' of None \<Rightarrow> []
                        | Some d \<Rightarrow> [(''database_name'', JStr d)])
                     @ [(''result'', JObj [(''db_up'', JNum 1)])])\<rparr>)
     \<and> (\<forall>err x.
        pool_query W p ''SELECT 1 as db_up'' [] (ext s) = (Inl err, x) \<longrightarrow>
        fst (serve W GET_health_db s) =
          Response \<lparr>status = 500,
            body = JObj [(''status'', JStr ''error''), (''database'', JStr ''down''),
                         (''error'', JStr (message err))]\<rparr>)"
  using assms
  by (simp add: serve_def get_health_db_def action_defs split: option.split)

theorem health_db_reports_witness:
  "listening serving \<and> exit_code serving = None \<and> db serving = Some school_pool
   \<and> fst (serve steady GET_health_db serving) =
       Response \<lparr>status = 200,
         body = JObj [(''status'', JStr ''ok''), (''database'', JStr ''connected''),
                      (''result'', JObj [(''db_up'', JNum 1)])]\<rparr>
   \<and> fst (serve db_down GET_health_db serving) =
       Response \<lparr>status = 500,
         body = JObj [(''status'', JStr ''error''), (''database'', JStr ''down''),
                      (''error'', JStr ''Connection lost'')]\<rparr>"
proof -
  note t = health_db_reports [OF serving_facts(1-3)]
  have q1: "pool_query steady school_pool ''SELECT 1 as db_up'' [] (ext serving)
      = (Inr (Rows (JObj [(''db_up'', JNum 1)] # [])), 1)"
    and q2: "pool_query db_down school_pool ''SELECT 1 as db_up'' [] (ext serving)
      = (Inl (Error ''Connection lost''), 1)"
    and e: "env steady ''host'' = None" "env steady ''database'' = None"
    by (simp_all add: serving_facts steady_def db_down_def answer_def)
  from t [of steady] t [of db_down] q1 q2 e show ?thesis
    by (simp add: serving_facts)
qed



text \<open>
  C10. Called with \<open>retries \<le> 0\<close>, \<open>connectWithRetry\<close> never enters its loop: it returns
  \<open>undefined\<close> (\<open>Inr None\<close>) and has done nothing, so it gives neither a pool nor an
  error. With \<open>retries \<ge> 1\<close> it never returns \<open>undefined\<close>: it gives a pool or an error.
\<close>

theorem connectWithRetry_without_attempts:
  "(retries \<le> 0 \<longrightarrow> connectWithRetry W retries delay s = (Inr None, s))
   \<and> (1 \<le> retries \<longrightarrow> fst (connectWithRetry W retries delay s) \<noteq> Inr None)"
  by (simp add: connectWithRetry_def connectLoop_some connectLoop_exit)

theorem connectWithRetry_without_attempts_witness:
  "connectWithRetry steady 0 3000 (loaded 0) = (Inr None, loaded 0)
   \<and> connectWithRetry steady (- 2) 3000 (loaded 0) = (Inr None, loaded 0)
   \<and> fst (connectWithRetry steady 1 3000 (loaded 0)) \<noteq> Inr None"
  using connectWithRetry_without_attempts [of 0 steady 3000 "loaded 0"]
    connectWithRetry_without_attempts [of "- 2" steady 3000 "loaded 0"]
    connectWithRetry_without_attempts [of 1 steady 3000 "loaded 0"]
  by simp

end
